theory Spec2Isabelle
  imports Complex_Main "HOL-Library.Char_ord" "HOL-Library.List_Lexorder"
    "HOL-Library.Multiset" "HOL-Library.Sublist"
begin

section \<open>Python strings and numbers\<close>

text \<open>
  Strings are byte lists; the functions below give the ASCII behaviour of Python's
  \<^verbatim>\<open>str.strip\<close>, \<^verbatim>\<open>str.lower\<close>, \<^verbatim>\<open>str.upper\<close>, \<^verbatim>\<open>str.split\<close>, \<^verbatim>\<open>str.replace\<close> and
  \<^verbatim>\<open>in\<close>. Bytes above 127 are left unchanged by the case conversions.
  Python \<^verbatim>\<open>float\<close> values are modelled as exact reals, so NaN, infinities and the
  rounding error of binary floating point are outside the model.
\<close>

definition is_space :: "char \<Rightarrow> bool" where
  "is_space c = (c \<in> set [CHR '' '', CHR 0x09, CHR 0x0A, CHR 0x0B, CHR 0x0C, CHR 0x0D,
     CHR 0x1C, CHR 0x1D, CHR 0x1E, CHR 0x1F])"

definition is_digit :: "char \<Rightarrow> bool" where
  "is_digit c = (c \<in> set ''0123456789'')"

definition strip :: "string \<Rightarrow> string" where
  "strip s = rev (dropWhile is_space (rev (dropWhile is_space s)))"

definition lower_char :: "char \<Rightarrow> char" where
  "lower_char c =
     (case map_of (zip ''ABCDEFGHIJKLMNOPQRSTUVWXYZ'' ''abcdefghijklmnopqrstuvwxyz'') c of
        Some d \<Rightarrow> d | None \<Rightarrow> c)"

definition upper_char :: "char \<Rightarrow> char" where
  "upper_char c =
     (case map_of (zip ''abcdefghijklmnopqrstuvwxyz'' ''ABCDEFGHIJKLMNOPQRSTUVWXYZ'') c of
        Some d \<Rightarrow> d | None \<Rightarrow> c)"

definition lower :: "string \<Rightarrow> string" where
  "lower s = map lower_char s"

definition upper :: "string \<Rightarrow> string" where
  "upper s = map upper_char s"

text \<open>\<^verbatim>\<open>sub in s\<close>: \<open>sub\<close> occurs in \<open>s\<close> as a contiguous substring.\<close>

fun contains :: "string \<Rightarrow> string \<Rightarrow> bool" where
  "contains [] sub = (sub = [])"
| "contains (c # cs) sub = (take (length sub) (c # cs) = sub \<or> contains cs sub)"

text \<open>\<^verbatim>\<open>s.split()\<close>: the maximal runs of non-whitespace characters.\<close>

fun split_ws_acc :: "string \<Rightarrow> string \<Rightarrow> string list" where
  "split_ws_acc cur [] = (if cur = [] then [] else [rev cur])"
| "split_ws_acc cur (c # cs) =
     (if is_space c then (if cur = [] then split_ws_acc [] cs else rev cur # split_ws_acc [] cs)
      else split_ws_acc (c # cur) cs)"

definition split_ws :: "string \<Rightarrow> string list" where
  "split_ws s = split_ws_acc [] s"

text \<open>\<^verbatim>\<open>s.split(sep)\<close> for a one-character separator.\<close>

fun split_on :: "char \<Rightarrow> string \<Rightarrow> string list" where
  "split_on sep [] = [[]]"
| "split_on sep (c # cs) =
     (if c = sep then [] # split_on sep cs
      else (case split_on sep cs of [] \<Rightarrow> [[c]] | p # ps \<Rightarrow> (c # p) # ps))"

text \<open>\<^verbatim>\<open>s.replace(",", "")\<close> and \<^verbatim>\<open>s.replace(",", " ")\<close>.\<close>

definition remove_commas :: "string \<Rightarrow> string" where
  "remove_commas s = filter (\<lambda>c. c \<noteq> CHR '','') s"

definition commas_to_spaces :: "string \<Rightarrow> string" where
  "commas_to_spaces s = map (\<lambda>c. if c = CHR '','' then CHR '' '' else c) s"

subsection \<open>Decimal numerals\<close>

definition digit_char :: "nat \<Rightarrow> char" where
  "digit_char d = ''0123456789'' ! (d mod 10)"

definition digit_val :: "char \<Rightarrow> nat" where
  "digit_val c = (case map_of (zip ''0123456789'' [0, 1, 2, 3, 4, 5, 6, 7, 8, 9]) c of
     Some d \<Rightarrow> d | None \<Rightarrow> 0)"

function digits_of :: "nat \<Rightarrow> string" where
  "digits_of n = (if n < 10 then [digit_char n] else digits_of (n div 10) @ [digit_char n])"
  by pat_completeness auto
termination
  by (relation "measure id") auto

declare digits_of.simps [simp del]

definition nat_of_digits :: "string \<Rightarrow> nat" where
  "nat_of_digits ds = foldl (\<lambda>acc c. 10 * acc + digit_val c) 0 ds"

text \<open>
  \<^verbatim>\<open>int(s)\<close> on the strings the program meets: surrounding whitespace, an optional sign
  and decimal digits; anything else raises \<^verbatim>\<open>ValueError\<close> (\<open>None\<close>).
\<close>

definition digits_to_nat :: "string \<Rightarrow> nat option" where
  "digits_to_nat ds = (if ds \<noteq> [] \<and> list_all is_digit ds then Some (nat_of_digits ds) else None)"

definition py_int :: "string \<Rightarrow> int option" where
  "py_int s = (case strip s of
       [] \<Rightarrow> None
     | c # cs \<Rightarrow>
         if c = CHR ''-'' then map_option (\<lambda>n. - int n) (digits_to_nat cs)
         else if c = CHR ''+'' then map_option int (digits_to_nat cs)
         else map_option int (digits_to_nat (c # cs)))"

text \<open>The format specs \<^verbatim>\<open>{n:04d}\<close> and \<^verbatim>\<open>{n:02d}\<close>: zero padding to a minimal width,
  the sign counting towards the width.\<close>

definition zero_pad :: "nat \<Rightarrow> string \<Rightarrow> string" where
  "zero_pad w s = replicate (w - length s) (CHR ''0'') @ s"

definition format_d :: "nat \<Rightarrow> int \<Rightarrow> string" where
  "format_d w n = (if n < 0 then CHR ''-'' # zero_pad (w - 1) (digits_of (nat (- n)))
                   else zero_pad w (digits_of (nat n)))"

text \<open>\<^verbatim>\<open>round(x, 2)\<close>: rounding to two decimals, ties to the even neighbour.\<close>

definition round_half_even :: "real \<Rightarrow> int" where
  "round_half_even x =
     (let f = \<lfloor>x\<rfloor>; d = x - of_int f
      in if d < 1 / 2 then f else if 1 / 2 < d then f + 1 else if even f then f else f + 1)"

definition round2 :: "real \<Rightarrow> real" where
  "round2 x = of_int (round_half_even (x * 100)) / 100"

section \<open>Errors and dates\<close>

datatype error = HTTPException nat string | ValueError

datatype date = Date (year: nat) (month_of: nat) (day: nat)

text \<open>\<^verbatim>\<open>d.strftime("%Y-%m")\<close> and \<^verbatim>\<open>str(d)\<close> for a date with a four-digit year.\<close>

definition strftime_ym :: "date \<Rightarrow> string" where
  "strftime_ym d = format_d 4 (int (year d)) @ ''-'' @ format_d 2 (int (month_of d))"

definition isoformat :: "date \<Rightarrow> string" where
  "isoformat d = strftime_ym d @ ''-'' @ format_d 2 (int (day d))"

text \<open>\<^verbatim>\<open>_add_months_ym\<close> (app/main.py): the unpacking of the split and the two
  \<^verbatim>\<open>int\<close> conversions can raise \<^verbatim>\<open>ValueError\<close>.\<close>

definition add_months_ym :: "string \<Rightarrow> int \<Rightarrow> error + string" where
  "add_months_ym ym add =
     (case split_on (CHR ''-'') ym of
        [ys, ms] \<Rightarrow>
          (case (py_int ys, py_int ms) of
             (Some y, Some m) \<Rightarrow>
               (let idx = (y * 12 + (m - 1)) + add;
                    ny = idx div 12;
                    nm = (idx mod 12) + 1
                in Inr (format_d 4 ny @ ''-'' @ format_d 2 nm))
           | _ \<Rightarrow> Inl ValueError)
      | _ \<Rightarrow> Inl ValueError)"

section \<open>The metrics engine (app/main.py)\<close>

text \<open>
  A row of the \<^verbatim>\<open>transactions\<close> table. The text columns have type \<open>'s\<close>: \<open>string\<close> for
  the rows of a normalized data frame, \<open>string option\<close> for the ORM objects, whose
  nullable columns the metrics read through \<^verbatim>\<open>(t.direction or "")\<close>.
\<close>

record 's txn =
  txn_date :: date
  description :: 's
  category :: 's
  direction :: 's
  amount :: real

type_synonym Transaction = "string option txn"

definition or_empty :: "string option \<Rightarrow> string" where
  "or_empty v = (case v of None \<Rightarrow> [] | Some s \<Rightarrow> s)"

definition is_credit :: "Transaction \<Rightarrow> bool" where
  "is_credit t = (lower (or_empty (direction t)) = ''credit'')"

definition is_debit :: "Transaction \<Rightarrow> bool" where
  "is_debit t = (lower (or_empty (direction t)) = ''debit'')"

definition is_revenue_credit :: "Transaction \<Rightarrow> bool" where
  "is_revenue_credit t = (lower (or_empty (category t)) = ''revenue'' \<and> is_credit t)"

definition inflow :: "Transaction list \<Rightarrow> real" where
  "inflow txns = sum_list (map amount (filter is_credit txns))"

definition outflow :: "Transaction list \<Rightarrow> real" where
  "outflow txns = sum_list (map amount (filter is_debit txns))"

definition revenue_sum :: "Transaction list \<Rightarrow> real" where
  "revenue_sum txns = sum_list (map amount (filter is_revenue_credit txns))"

definition expenses_sum :: "Transaction list \<Rightarrow> real" where
  "expenses_sum txns = sum_list (map amount (filter is_debit txns))"

subsection \<open>Monthly series\<close>

text \<open>A dictionary of the monthly series, as the forecast reads it.\<close>

record bucket =
  month :: string
  revenue :: real
  expenses :: real
  profit_simple :: real

subsection \<open>Health score\<close>

text \<open>The four additive components of \<^verbatim>\<open>score\<close>, as a function of the four tests.\<close>

definition score_points :: "bool \<Rightarrow> bool \<Rightarrow> bool \<Rightarrow> bool \<Rightarrow> int" where
  "score_points cf_pos profit_pos many_txns has_revenue =
     (0 + (if cf_pos then 30 else 10) + (if profit_pos then 30 else 10)
        + (if many_txns then 20 else 10) + (if has_revenue then 20 else 5))"

definition rating_of :: "int \<Rightarrow> string" where
  "rating_of s = (if s \<ge> 80 then ''Excellent'' else if s \<ge> 60 then ''Good''
                  else if s \<ge> 40 then ''Average'' else ''Poor'')"

definition score :: "Transaction list \<Rightarrow> int \<times> string" where
  "score txns =
     (if txns = [] then (0, ''No Data'')
      else (let inflow = inflow txns;
                outflow = outflow txns;
                revenue = revenue_sum txns;
                expenses = expenses_sum txns;
                net_cf = inflow - outflow;
                profit = revenue - expenses;
                s = score_points (net_cf > 0) (profit > 0) (length txns \<ge> 20) (revenue > 0)
            in (s, rating_of s)))"

subsection \<open>Forecast\<close>

record forecast_row =
  f_month :: string
  forecast_revenue :: real
  forecast_net_cashflow :: real

record forecast_result =
  forecast :: "forecast_row list"
  based_on_months :: "string list"
  message :: "string option"

fun collect :: "(error + 'a) list \<Rightarrow> error + 'a list" where
  "collect [] = Inr []"
| "collect (Inl e # rs) = Inl e"
| "collect (Inr x # rs) = (case collect rs of Inl e \<Rightarrow> Inl e | Inr xs \<Rightarrow> Inr (x # xs))"

definition forecast_from :: "bucket list \<Rightarrow> int \<Rightarrow> error + forecast_result" where
  "forecast_from monthly months =
     (if monthly = [] then
        Inr \<lparr> forecast = [], based_on_months = [], message = Some ''No data to forecast'' \<rparr>
      else
        (let last_n = (if length monthly \<ge> 3 then drop (length monthly - 3) monthly else monthly);
             avg_rev = sum_list (map revenue last_n) / real (length last_n);
             avg_profit = sum_list (map profit_simple last_n) / real (length last_n);
             last_month = month (last monthly)
         in case collect (map (\<lambda>i. case add_months_ym last_month i of
                                        Inl e \<Rightarrow> Inl e
                                      | Inr m \<Rightarrow> Inr \<lparr> f_month = m,
                                                       forecast_revenue = round2 avg_rev,
                                                       forecast_net_cashflow = round2 avg_profit \<rparr>)
                              [1..months]) of
              Inl e \<Rightarrow> Inl e
            | Inr out \<Rightarrow> Inr \<lparr> forecast = out, based_on_months = map month last_n,
                               message = None \<rparr>))"

text \<open>
  Calendar arithmetic as the specification words it: the month after \<open>(y, m)\<close>, with the
  year rolling over after December, and the key \<^verbatim>\<open>YYYY-MM\<close> of the \<open>k\<close>-th month after
  \<open>(y, m)\<close>. These two definitions follow the specification, not the code; they are
  compared with \<^verbatim>\<open>_add_months_ym\<close> below.
\<close>

definition spec_next_month :: "nat \<times> nat \<Rightarrow> nat \<times> nat" where
  "spec_next_month ym = (case ym of (y, m) \<Rightarrow> if m = 12 then (y + 1, 1) else (y, m + 1))"

definition spec_month_key :: "nat \<Rightarrow> nat \<Rightarrow> nat \<Rightarrow> string" where
  "spec_month_key y m k = (case (spec_next_month ^^ k) (y, m) of (y', m') \<Rightarrow> strftime_ym (Date y' m' 1))"

section \<open>KPIs and the monthly series (app/main.py)\<close>













subsection \<open>The series in closed form\<close>



subsection \<open>Exact arithmetic\<close>



section \<open>Tabular ingestion (app/main.py)\<close>

text \<open>
  A Python \<^verbatim>\<open>float\<close> in the ingestion is a finite double, given by its value, an infinity
  or nan. The ingestion only takes absolute values of floats and compares them with
  zero, and both are exact on doubles.
\<close>

datatype pyfloat = Fin real | PosInf | NegInf | FNaN

text \<open>\<^verbatim>\<open>abs(x)\<close> and \<^verbatim>\<open>x >= 0\<close>.\<close>

definition fabs :: "pyfloat \<Rightarrow> pyfloat" where
  "fabs x = (case x of Fin r \<Rightarrow> Fin \<bar>r\<bar> | PosInf \<Rightarrow> PosInf | NegInf \<Rightarrow> PosInf | FNaN \<Rightarrow> FNaN)"

definition ge0 :: "pyfloat \<Rightarrow> bool" where
  "ge0 x = (case x of Fin r \<Rightarrow> 0 \<le> r | PosInf \<Rightarrow> True | NegInf \<Rightarrow> False | FNaN \<Rightarrow> False)"

text \<open>\<^verbatim>\<open>a > b\<close>.\<close>

definition fgt :: "pyfloat \<Rightarrow> pyfloat \<Rightarrow> bool" where
  "fgt a b = (case (a, b) of
       (Fin x, Fin y) \<Rightarrow> y < x
     | (Fin x, NegInf) \<Rightarrow> True
     | (PosInf, Fin y) \<Rightarrow> True
     | (PosInf, NegInf) \<Rightarrow> True
     | _ \<Rightarrow> False)"

text \<open>A date value: a date, or pandas' \<^verbatim>\<open>NaT\<close>.\<close>

datatype pydate = Day date | NaT

text \<open>
  A data frame is a list of column names and a list of rows; a row gives the cell under
  each column name. A cell is a float, a string or a date value; the missing value of
  pandas is the float nan, or \<^verbatim>\<open>NaT\<close> in a column of dates. Column names are strings and
  pairwise different, as pandas makes them on reading.
\<close>

datatype cell = Num pyfloat | Str string | DateCell pydate

record dataframe =
  columns :: "string list"
  rows :: "(string \<Rightarrow> cell) list"

text \<open>\<^verbatim>\<open>pd.isna(x)\<close>.\<close>

definition isna :: "cell \<Rightarrow> bool" where
  "isna x = (x = Num FNaN \<or> x = DateCell NaT)"

text \<open>
  The exceptions that leave the ingestion: an \<^verbatim>\<open>HTTPException\<close> with its status and
  detail, or another exception, which nothing catches.
\<close>

datatype exn = Http nat string | Crash

text \<open>
  The library functions that the ingestion calls are parameters of the model:
  \<^item> \<^verbatim>\<open>datetime.strptime(s, fmt).date()\<close>, \<^verbatim>\<open>pd.to_datetime(s).date()\<close> and \<^verbatim>\<open>float(s)\<close>,
    each with \<open>None\<close> for a raised exception;
  \<^item> \<^verbatim>\<open>str(x)\<close> of a finite float and of a date;
  \<^item> what \<^verbatim>\<open>astype(str)\<close> makes of a missing value: a string (\<^verbatim>\<open>'nan'\<close> on pandas 2), or
    \<open>None\<close> when the value stays missing (pandas 3);
  \<^item> what \<^verbatim>\<open>_normalize_direction\<close> returns for a value that stayed missing, with \<open>None\<close>
    when \<^verbatim>\<open>(v or "").strip()\<close> raises;
  \<^item> one element of \<^verbatim>\<open>pd.to_numeric(..., errors="coerce")\<close>, nan for a value that is not
    a number.
\<close>

record pylib =
  strptime :: "string \<Rightarrow> string \<Rightarrow> date option"
  to_datetime :: "string \<Rightarrow> pydate option"
  py_float :: "string \<Rightarrow> pyfloat option"
  repr_num :: "real \<Rightarrow> string"
  repr_date :: "date \<Rightarrow> string"
  na_str :: "cell \<Rightarrow> string option"
  missing_direction :: "string option"
  to_numeric :: "cell \<Rightarrow> pyfloat"

text \<open>\<^verbatim>\<open>str(x)\<close> of a cell.\<close>

definition float_str :: "pylib \<Rightarrow> pyfloat \<Rightarrow> string" where
  "float_str L x = (case x of
       Fin r \<Rightarrow> repr_num L r | PosInf \<Rightarrow> ''inf'' | NegInf \<Rightarrow> ''-inf'' | FNaN \<Rightarrow> ''nan'')"

definition cell_str :: "pylib \<Rightarrow> cell \<Rightarrow> string" where
  "cell_str L x = (case x of
       Num f \<Rightarrow> float_str L f
     | Str s \<Rightarrow> s
     | DateCell d \<Rightarrow> (case d of Day d' \<Rightarrow> repr_date L d' | NaT \<Rightarrow> ''NaT''))"

text \<open>One element of \<^verbatim>\<open>column.astype(str)\<close>; \<open>None\<close> is a value that stays missing.\<close>

definition astype_str :: "pylib \<Rightarrow> cell \<Rightarrow> string option" where
  "astype_str L x = (if isna x then na_str L x else Some (cell_str L x))"

definition safe_float :: "pylib \<Rightarrow> cell \<Rightarrow> pyfloat" where
  "safe_float L x =
     (if isna x then Fin 0
      else (let s = strip (remove_commas (cell_str L x))
            in if s = [] then Fin 0
               else (case py_float L s of Some f \<Rightarrow> f | None \<Rightarrow> Fin 0)))"

definition normalize_direction :: "string \<Rightarrow> string" where
  "normalize_direction v =
     (let s = lower (strip v)
      in if s \<in> set [''credit'', ''cr'', ''c'', ''in'', ''inflow'', ''income''] then ''credit''
         else if s \<in> set [''debit'', ''dr'', ''d'', ''out'', ''outflow'', ''expense''] then ''debit''
         else ''debit'')"

fun try_formats :: "pylib \<Rightarrow> string \<Rightarrow> string list \<Rightarrow> date option" where
  "try_formats L s [] = None"
| "try_formats L s (fmt # fmts) =
     (case strptime L s fmt of Some d \<Rightarrow> Some d | None \<Rightarrow> try_formats L s fmts)"

definition parse_date_any :: "pylib \<Rightarrow> cell \<Rightarrow> exn + pydate" where
  "parse_date_any L v =
     (case v of
        DateCell d \<Rightarrow> Inr d
      | _ \<Rightarrow>
          (let s = strip (cell_str L v)
           in case try_formats L s [''%Y-%m-%d'', ''%d/%m/%Y'', ''%d-%m-%Y'', ''%m/%d/%Y''] of
                Some d \<Rightarrow> Inr (Day d)
              | None \<Rightarrow>
                  (case to_datetime L s of
                     Some d \<Rightarrow> Inr d
                   | None \<Rightarrow> Inl (Http 400 (''Invalid date: '' @ cell_str L v)))))"

subsection \<open>Column detection\<close>

text \<open>
  The dictionary \<^verbatim>\<open>{c.lower().strip(): c for c in df.columns}\<close>: a later column replaces
  an earlier one with the same key, so a lookup finds the last column with that key.
\<close>

definition main_cols :: "string list \<Rightarrow> string \<Rightarrow> string option" where
  "main_cols cs = map_of (rev (map (\<lambda>c. (strip (lower c), c)) cs))"

fun pick :: "(string \<Rightarrow> string option) \<Rightarrow> string list \<Rightarrow> string option" where
  "pick cols [] = None"
| "pick cols (n # ns) = (case cols n of Some c \<Rightarrow> Some c | None \<Rightarrow> pick cols ns)"

definition date_names :: "string list" where
  "date_names = [''date'', ''txn_date'', ''transaction_date'', ''value_date'']"

definition desc_names :: "string list" where
  "desc_names = [''description'', ''narration'', ''particulars'', ''details'', ''remark'', ''remarks'']"

definition cat_names :: "string list" where
  "cat_names = [''category'', ''cat'', ''type'']"

definition dir_names :: "string list" where
  "dir_names = [''direction'', ''drcr'', ''dr_cr'', ''credit_debit'']"

definition amt_names :: "string list" where
  "amt_names = [''amount'', ''amt'', ''value'', ''transaction_amount'']"

record detected =
  c_date :: "string option"
  c_desc :: "string option"
  c_cat :: "string option"
  c_dir :: "string option"
  c_amt :: "string option"

definition detect :: "string list \<Rightarrow> detected" where
  "detect cs =
     (let cols = main_cols cs
      in \<lparr> c_date = pick cols date_names, c_desc = pick cols desc_names,
           c_cat = pick cols cat_names, c_dir = pick cols dir_names,
           c_amt = pick cols amt_names \<rparr>)"

subsection \<open>Normalization\<close>

text \<open>
  A row of the frame that \<^verbatim>\<open>normalize_transactions\<close> returns, with its columns
  \<^verbatim>\<open>txn_date\<close>, \<^verbatim>\<open>description\<close>, \<^verbatim>\<open>category\<close>, \<^verbatim>\<open>direction\<close> and \<^verbatim>\<open>amount\<close>.
\<close>

record frame_row =
  row_date :: pydate
  row_description :: string
  row_category :: string
  row_direction :: string
  row_amount :: pyfloat

text \<open>\<^verbatim>\<open>Series.apply\<close>: the results in the order of the rows, or the first exception.\<close>

fun apply_all :: "('e + 'a) list \<Rightarrow> 'e + 'a list" where
  "apply_all [] = Inr []"
| "apply_all (Inl e # rs) = Inl e"
| "apply_all (Inr x # rs) = (case apply_all rs of Inl e \<Rightarrow> Inl e | Inr xs \<Rightarrow> Inr (x # xs))"

text \<open>
  The column-wise steps of \<^verbatim>\<open>normalize_transactions\<close>, written for one row. The first
  four functions give the columns \<^verbatim>\<open>description\<close>, \<^verbatim>\<open>category\<close>, \<^verbatim>\<open>direction\<close> and
  \<^verbatim>\<open>amount\<close> as they are first assigned; in the first, \<open>None\<close> is a missing value.
\<close>

definition detected_description :: "pylib \<Rightarrow> detected \<Rightarrow> (string \<Rightarrow> cell) \<Rightarrow> string option" where
  "detected_description L dt r = (case c_desc dt of Some c \<Rightarrow> astype_str L (r c) | None \<Rightarrow> Some [])"

definition detected_category :: "pylib \<Rightarrow> detected \<Rightarrow> (string \<Rightarrow> cell) \<Rightarrow> string" where
  "detected_category L dt r =
     (case c_cat dt of
        Some c \<Rightarrow> (case astype_str L (r c) of Some s \<Rightarrow> lower s | None \<Rightarrow> [])
      | None \<Rightarrow> [])"

definition direction_cell :: "pylib \<Rightarrow> cell \<Rightarrow> exn + string" where
  "direction_cell L x =
     (case astype_str L x of
        Some s \<Rightarrow> Inr (normalize_direction s)
      | None \<Rightarrow> (case missing_direction L of Some d \<Rightarrow> Inr d | None \<Rightarrow> Inl Crash))"

definition detected_direction :: "pylib \<Rightarrow> detected \<Rightarrow> string \<Rightarrow> (string \<Rightarrow> cell) \<Rightarrow> exn + string" where
  "detected_direction L dt ca r =
     (case c_dir dt of
        Some cd \<Rightarrow> direction_cell L (r cd)
      | None \<Rightarrow> Inr (if ge0 (safe_float L (r ca)) then ''credit'' else ''debit''))"

definition detected_amount :: "pylib \<Rightarrow> string \<Rightarrow> (string \<Rightarrow> cell) \<Rightarrow> pyfloat" where
  "detected_amount L ca r = fabs (safe_float L (r ca))"

text \<open>The two \<^verbatim>\<open>out.loc[...] = ...\<close> assignments, in their order.\<close>

definition fill_category :: "string \<Rightarrow> string \<Rightarrow> string" where
  "fill_category cat dir =
     (let cat1 = (if cat = [] \<and> dir = ''credit'' then ''revenue'' else cat)
      in if cat1 = [] \<and> dir = ''debit'' then ''expense'' else cat1)"

text \<open>The row of the result for a row of the frame, its date and its direction.\<close>

definition build_row ::
  "pylib \<Rightarrow> detected \<Rightarrow> string \<Rightarrow> (string \<Rightarrow> cell) \<times> pydate \<times> string \<Rightarrow> frame_row" where
  "build_row L dt ca rdd =
     (case rdd of (r, d, dir) \<Rightarrow>
        \<lparr> row_date = d,
          row_description =
            take 255 (strip (case detected_description L dt r of Some s \<Rightarrow> s | None \<Rightarrow> [])),
          row_category = take 64 (strip (fill_category (detected_category L dt r) dir)),
          row_direction = lower (strip dir),
          row_amount = detected_amount L ca r \<rparr>)"

definition missing_columns :: exn where
  "missing_columns = Http 400
     ''CSV/XLSX must contain at least: date, amount (optional description/category/direction).''"

definition normalize_transactions :: "pylib \<Rightarrow> dataframe \<Rightarrow> exn + frame_row list" where
  "normalize_transactions L df =
     (if columns df = [] \<or> rows df = [] then Inr []
      else
        (let dt = detect (columns df)
         in case (c_date dt, c_amt dt) of
              (Some cd, Some ca) \<Rightarrow>
                (case apply_all (map (\<lambda>r. parse_date_any L (r cd)) (rows df)) of
                   Inl e \<Rightarrow> Inl e
                 | Inr ds \<Rightarrow>
                     (case apply_all (map (detected_direction L dt ca) (rows df)) of
                        Inl e \<Rightarrow> Inl e
                      | Inr dirs \<Rightarrow>
                          Inr (map (build_row L dt ca) (zip (rows df) (zip ds dirs)))))
            | _ \<Rightarrow> Inl missing_columns))"


section \<open>Column aliases (app/utils.py)\<close>

definition utils_cols :: "string list \<Rightarrow> string \<Rightarrow> string option" where
  "utils_cols cs = map_of (rev (map (\<lambda>c. (lower (strip c), c)) cs))"

fun find_col :: "string list \<Rightarrow> string list \<Rightarrow> string option" where
  "find_col cs [] = None"
| "find_col cs (key # keys) =
     (case utils_cols cs (lower key) of Some c \<Rightarrow> Some c | None \<Rightarrow> find_col cs keys)"

definition COLUMN_ALIASES :: "string \<Rightarrow> string list" where
  "COLUMN_ALIASES role =
     (if role = ''date'' then [''date'', ''txn_date'', ''transaction_date'', ''value_date'', ''posting_date'']
      else if role = ''description'' then
        [''description'', ''narration'', ''particulars'', ''details'', ''remark'', ''remarks'']
      else if role = ''amount'' then [''amount'', ''amt'', ''transaction_amount'']
      else if role = ''debit'' then [''debit'', ''dr'', ''withdrawal'', ''withdrawals'']
      else if role = ''credit'' then [''credit'', ''cr'', ''deposit'', ''deposits'']
      else if role = ''category'' then [''category'', ''expense_category'', ''ledger'', ''account'', ''head'']
      else [])"

definition roles :: "string list" where
  "roles = [''date'', ''description'', ''amount'', ''debit'', ''credit'', ''category'']"

text \<open>The six detected columns of \<^verbatim>\<open>utils.normalize_transactions\<close>, in the order of
  \<open>roles\<close>; the column names are stripped before the search.\<close>

definition utils_detect :: "string list \<Rightarrow> string option list" where
  "utils_detect cs = map (\<lambda>role. find_col (map strip cs) (COLUMN_ALIASES role)) roles"

text \<open>The amount branch of \<^verbatim>\<open>utils.normalize_transactions\<close> for one cell of the amount
  column: the element of \<^verbatim>\<open>s\<close>, and the direction and the amount made from it.\<close>

definition utils_signed :: "pylib \<Rightarrow> cell \<Rightarrow> pyfloat" where
  "utils_signed L x = (let v = to_numeric L x in if v = FNaN then Fin 0 else v)"

definition utils_amount_direction :: "pylib \<Rightarrow> cell \<Rightarrow> string \<times> pyfloat" where
  "utils_amount_direction L x =
     (let s = utils_signed L x
      in (if ge0 s then ''credit'' else ''debit'', fabs s))"

text \<open>The spec's wording of field detection: the first alias, in priority order, that
  is the normalized name of some column; the column is the one with that name.\<close>

definition norm_name :: "string \<Rightarrow> string" where
  "norm_name c = lower (strip c)"

definition spec_find :: "string list \<Rightarrow> string list \<Rightarrow> string option" where
  "spec_find cs keys =
     (case List.find (\<lambda>k. lower k \<in> set (map norm_name cs)) keys of
        None \<Rightarrow> None
      | Some k \<Rightarrow> List.find (\<lambda>c. norm_name c = lower k) cs)"

section \<open>Bank statements as PDF text (app/main.py)\<close>

text \<open>
  \<^verbatim>\<open>date_re.search(line)\<close>: each of the three patterns is anchored at the start of the
  line, so the search succeeds when the line begins with one of the three shapes. In a
  shape, \<open>d\<close> stands for a digit and every other character for itself.
\<close>

definition matches_shape :: "string \<Rightarrow> string \<Rightarrow> bool" where
  "matches_shape shape s =
     (length shape \<le> length s \<and>
      list_all (\<lambda>(p, c). if p = CHR ''d'' then is_digit c else c = p) (zip shape s))"

definition date_re_search :: "string \<Rightarrow> bool" where
  "date_re_search line =
     (matches_shape ''dddd-dd-dd'' line \<or> matches_shape ''dd/dd/dddd'' line
      \<or> matches_shape ''dd-dd-dddd'' line)"

text \<open>
  One match of \<^verbatim>\<open>[-]?\d[\d,]*\.?\d*\<close> at the start of a string: the match and the rest.
  Only the optional sign can need backtracking, and giving it up cannot help, because the
  next item would then have to be a digit at the sign.
\<close>

definition num_rest :: "string \<Rightarrow> string \<times> string" where
  "num_rest ds =
     (let body = takeWhile (\<lambda>c. is_digit c \<or> c = CHR '','') ds;
          r1 = dropWhile (\<lambda>c. is_digit c \<or> c = CHR '','') ds;
          dot = (case r1 of c # _ \<Rightarrow> c = CHR ''.'' | [] \<Rightarrow> False);
          r2 = (if dot then tl r1 else r1)
      in (body @ (if dot then ''.'' else []) @ takeWhile is_digit r2, dropWhile is_digit r2))"

definition num_at :: "string \<Rightarrow> (string \<times> string) option" where
  "num_at s =
     (case s of
        [] \<Rightarrow> None
      | c # cs \<Rightarrow>
          if is_digit c then (case num_rest cs of (m, r) \<Rightarrow> Some (c # m, r))
          else if c = CHR ''-'' then
            (case cs of
               [] \<Rightarrow> None
             | d # ds \<Rightarrow>
                 if is_digit d then (case num_rest ds of (m, r) \<Rightarrow> Some (c # d # m, r))
                 else None)
          else None)"

text \<open>\<^verbatim>\<open>re.findall\<close> of that pattern: the matches from left to right, without overlap.\<close>

function findall_nums :: "string \<Rightarrow> string list" where
  "findall_nums [] = []"
| "findall_nums (c # cs) =
     (case num_at (c # cs) of
        Some (m, rest) \<Rightarrow> m # findall_nums rest
      | None \<Rightarrow> findall_nums cs)"
  by pat_completeness auto
termination
proof (relation "measure length")
  fix c cs x m rest
  have le: "length (snd (num_rest ds)) \<le> length ds" for ds
  proof -
    let ?r1 = "dropWhile (\<lambda>c. is_digit c \<or> c = CHR '','') ds"
    have "length (snd (num_rest ds)) \<le> length ?r1"
      by (simp add: num_rest_def Let_def order_trans [OF length_dropWhile_le])
    also have "\<dots> \<le> length ds" by (rule length_dropWhile_le)
    finally show ?thesis .
  qed
  assume "num_at (c # cs) = Some x" and "(m, rest) = x"
  then have "rest = snd (num_rest cs) \<or> rest = snd (num_rest (tl cs))"
    by (auto simp add: num_at_def split: list.splits if_splits prod.splits)
  then have "length rest \<le> length cs"
    using le [of cs] le [of "tl cs"] by auto
  then show "(rest, c # cs) \<in> measure length" by simp
qed auto

text \<open>\<^verbatim>\<open>s.replace(old, "")\<close> for a non-empty \<open>old\<close>.\<close>

function remove_all :: "string \<Rightarrow> string \<Rightarrow> string" where
  "remove_all old [] = []"
| "remove_all old (c # cs) =
     (if old \<noteq> [] \<and> take (length old) (c # cs) = old
      then remove_all old (drop (length old) (c # cs))
      else c # remove_all old cs)"
  by pat_completeness auto
termination
  by (relation "measure (\<lambda>(old, s). length s)") auto

text \<open>
  The body of the loop over the lines of \<^verbatim>\<open>parse_pdf_transactions_text\<close>: the row that a
  line adds, or \<open>None\<close> when the line is skipped. The lines are stripped and not empty.
\<close>

definition pdf_direction :: "string \<Rightarrow> string" where
  "pdf_direction line =
     (let u = upper line
      in if contains u '' DR'' \<or> contains u ''DEBIT'' then ''debit'' else ''credit'')"

definition pdf_row :: "pylib \<Rightarrow> string \<Rightarrow> frame_row option" where
  "pdf_row L line =
     (if \<not> date_re_search line then None
      else
        (let parts = split_ws line; raw_date = hd parts
         in case parse_date_any L (Str raw_date) of
              Inl e \<Rightarrow> None
            | Inr d \<Rightarrow>
                (let nums = findall_nums line
                 in if nums = [] then None
                    else
                      (case py_float L (remove_commas (last nums)) of
                         None \<Rightarrow> None
                       | Some amt \<Rightarrow>
                           (let direction = pdf_direction line;
                                category = (if direction = ''credit'' then ''revenue'' else ''expense'');
                                desc = strip (remove_all raw_date line)
                            in Some \<lparr> row_date = d, row_description = take 255 desc,
                                      row_category = category, row_direction = direction,
                                      row_amount = fabs amt \<rparr>)))))"

definition parse_pdf_lines :: "pylib \<Rightarrow> string list \<Rightarrow> frame_row list" where
  "parse_pdf_lines L lines = List.map_filter (pdf_row L) lines"

text \<open>The specification's wording of the direction rule: \<^verbatim>\<open>DR\<close> as a separate token of the
  line, or \<^verbatim>\<open>DEBIT\<close> anywhere in it, without regard to case.\<close>

definition spec_debit :: "string \<Rightarrow> bool" where
  "spec_debit line = (''DR'' \<in> set (split_ws (upper line)) \<or> contains (upper line) ''DEBIT'')"

section \<open>Invoice totals (app/routes\_invoice\_ocr.py)\<close>

text \<open>
  The text is a list of bytes in UTF-8. The pattern of the labelled total is
  \<^verbatim>\<open>(grand\s*total|total\s*amount|total)\s*[:\-]?\s*\<close>, then the three characters U+00E2,
  U+201A and U+00B9 of the source file, the last of them optional, then
  \<^verbatim>\<open>\s*([0-9]+(\.[0-9]{1,2})?)\<close>, matched without regard to case. The character classes
  that meet in it are disjoint, so the greedy choice at each item is the only one that
  can succeed, except for the three alternatives of the label, which are tried in order.
\<close>

definition skip_ws :: "string \<Rightarrow> string" where
  "skip_ws s = dropWhile is_space s"

text \<open>A literal, without regard to case: the rest of the string after it.\<close>

definition lit :: "string \<Rightarrow> string \<Rightarrow> string option" where
  "lit l s = (if lower (take (length l) s) = lower l then Some (drop (length l) s) else None)"

definition opt_lit :: "string \<Rightarrow> string \<Rightarrow> string" where
  "opt_lit l s = (case lit l s of Some r \<Rightarrow> r | None \<Rightarrow> s)"

text \<open>U+00E2 (or U+00C2, its capital), U+201A and U+00B9 in UTF-8.\<close>

definition a_circumflex :: "string \<Rightarrow> string option" where
  "a_circumflex s =
     (case lit [CHR 0xC3, CHR 0xA2] s of
        Some r \<Rightarrow> Some r
      | None \<Rightarrow> lit [CHR 0xC3, CHR 0x82] s)"

definition low_quote :: "string \<Rightarrow> string option" where
  "low_quote s = lit [CHR 0xE2, CHR 0x80, CHR 0x9A] s"

definition superscript_one :: "string \<Rightarrow> string" where
  "superscript_one s = opt_lit [CHR 0xC2, CHR 0xB9] s"

text \<open>\<^verbatim>\<open>[0-9]+(\.[0-9]{1,2})?\<close> at the start of a string: group 2 of the pattern.\<close>

definition amount_group :: "string \<Rightarrow> string option" where
  "amount_group s =
     (let ds = takeWhile is_digit s; r = dropWhile is_digit s
      in if ds = [] then None
         else (case r of
                 c # r' \<Rightarrow>
                   (let fs = takeWhile is_digit (take 2 r')
                    in if c = CHR ''.'' \<and> fs \<noteq> [] then Some (ds @ ''.'' @ fs) else Some ds)
               | [] \<Rightarrow> Some ds))"

text \<open>What follows the label.\<close>

definition after_label :: "string \<Rightarrow> string option" where
  "after_label s =
     (let s1 = skip_ws s;
          s2 = (case s1 of c # r \<Rightarrow> if c = CHR '':'' \<or> c = CHR ''-'' then r else s1 | [] \<Rightarrow> s1);
          s3 = skip_ws s2
      in case a_circumflex s3 of
           None \<Rightarrow> None
         | Some s4 \<Rightarrow>
             (case low_quote s4 of
                None \<Rightarrow> None
              | Some s5 \<Rightarrow> amount_group (skip_ws (superscript_one s5))))"

text \<open>The three labels, in the order of the alternatives.\<close>

definition label_grand_total :: "string \<Rightarrow> string option" where
  "label_grand_total s = (case lit ''grand'' s of None \<Rightarrow> None | Some r \<Rightarrow> lit ''total'' (skip_ws r))"

definition label_total_amount :: "string \<Rightarrow> string option" where
  "label_total_amount s = (case lit ''total'' s of None \<Rightarrow> None | Some r \<Rightarrow> lit ''amount'' (skip_ws r))"

definition label_total :: "string \<Rightarrow> string option" where
  "label_total s = lit ''total'' s"

definition labelled_at :: "string \<Rightarrow> string option" where
  "labelled_at s =
     (let try = (\<lambda>label. case label s of None \<Rightarrow> None | Some r \<Rightarrow> after_label r)
      in case try label_grand_total of
           Some g \<Rightarrow> Some g
         | None \<Rightarrow>
             (case try label_total_amount of
                Some g \<Rightarrow> Some g
              | None \<Rightarrow> try label_total))"

text \<open>\<^verbatim>\<open>re.search\<close>: the match at the leftmost position that has one.\<close>

fun search_labelled :: "string \<Rightarrow> string option" where
  "search_labelled [] = labelled_at []"
| "search_labelled (c # cs) =
     (case labelled_at (c # cs) of Some g \<Rightarrow> Some g | None \<Rightarrow> search_labelled cs)"

text \<open>
  \<^verbatim>\<open>\b[0-9]{3,}(?:\.[0-9]{1,2})?\b\<close> at the start of a string that begins with a digit
  after a word boundary: the match and the rest. The fraction is tried with two digits,
  with one digit and without, until a word boundary follows. Bytes above 127 count as
  non-word characters.
\<close>

definition is_word :: "char \<Rightarrow> bool" where
  "is_word c = (is_digit c \<or> c = CHR ''_''
     \<or> c \<in> set ''abcdefghijklmnopqrstuvwxyzABCDEFGHIJKLMNOPQRSTUVWXYZ'')"

definition boundary_after :: "string \<Rightarrow> bool" where
  "boundary_after r = (case r of [] \<Rightarrow> True | c # _ \<Rightarrow> \<not> is_word c)"

definition amount_at :: "string \<Rightarrow> (string \<times> string) option" where
  "amount_at s =
     (let ds = takeWhile is_digit s; r = dropWhile is_digit s
      in if length ds < 3 then None
         else
           (let fs = (case r of c # r' \<Rightarrow> if c = CHR ''.'' then takeWhile is_digit (take 2 r') else []
                               | [] \<Rightarrow> [])
            in if length fs = 2 \<and> boundary_after (drop 3 r) then Some (ds @ ''.'' @ fs, drop 3 r)
               else if 1 \<le> length fs \<and> boundary_after (drop 2 r) then Some (ds @ ''.'' @ take 1 fs, drop 2 r)
               else if boundary_after r then Some (ds, r)
               else None))"

text \<open>\<^verbatim>\<open>re.findall\<close> of that pattern; \<open>prev\<close> says whether the character before the
  string is a word character.\<close>

function scan_amounts :: "bool \<Rightarrow> string \<Rightarrow> string list" where
  "scan_amounts prev [] = []"
| "scan_amounts prev (c # cs) =
     (if is_digit c \<and> \<not> prev then
        (case amount_at (c # cs) of
           Some (m, rest) \<Rightarrow> m # scan_amounts True rest
         | None \<Rightarrow> scan_amounts (is_word c) cs)
      else scan_amounts (is_word c) cs)"
  by pat_completeness auto
termination
proof (relation "measure (\<lambda>(prev, s). length s)")
  fix prev :: bool and c cs x m rest
  assume "is_digit c \<and> \<not> prev" and "amount_at (c # cs) = Some x" and "(m, rest) = x"
  then have "rest \<in> {drop 3 (dropWhile is_digit cs), drop 2 (dropWhile is_digit cs), dropWhile is_digit cs}"
    by (auto simp add: amount_at_def Let_def split: if_splits)
  then have "length rest \<le> length (dropWhile is_digit cs)" by auto
  also have "\<dots> \<le> length cs" by (rule length_dropWhile_le)
  finally have "length rest \<le> length cs" .
  then show "((True, rest), (prev, c # cs)) \<in> measure (\<lambda>(prev, s). length s)" by simp
qed auto

text \<open>\<^verbatim>\<open>max(nums, key=float)\<close>: the first element with the greatest key, found from left to
  right; \<open>None\<close> when a key cannot be computed.\<close>

fun max_from :: "pylib \<Rightarrow> string \<times> pyfloat \<Rightarrow> string list \<Rightarrow> (string \<times> pyfloat) option" where
  "max_from L bw [] = Some bw"
| "max_from L bw (y # ys) =
     (case py_float L y of
        None \<Rightarrow> None
      | Some v \<Rightarrow> max_from L (if fgt v (snd bw) then (y, v) else bw) ys)"

definition max_by_float :: "pylib \<Rightarrow> string list \<Rightarrow> (string \<times> pyfloat) option" where
  "max_by_float L xs =
     (case xs of
        [] \<Rightarrow> None
      | x # ys \<Rightarrow> (case py_float L x of None \<Rightarrow> None | Some v \<Rightarrow> max_from L (x, v) ys))"

definition parse_total_amount :: "pylib \<Rightarrow> string \<Rightarrow> pyfloat option" where
  "parse_total_amount L text =
     (let t = commas_to_spaces text
      in case search_labelled t of
           Some g \<Rightarrow> py_float L g
         | None \<Rightarrow>
             (let nums = scan_amounts False t
              in if nums = [] then None
                 else (case max_by_float L nums of
                         None \<Rightarrow> None
                       | Some (b, w) \<Rightarrow> py_float L b)))"

section \<open>Example inputs\<close>

definition ex_debit_only :: "Transaction list" where
  "ex_debit_only = [\<lparr> txn_date = Date 2024 1 5, description = Some ''rent'',
     category = Some ''expense'', direction = Some ''debit'', amount = 100 \<rparr>]"

definition ex_credit_only :: "Transaction list" where
  "ex_credit_only = [\<lparr> txn_date = Date 2024 1 6, description = Some ''sale'',
     category = Some ''revenue'', direction = Some ''credit'', amount = 100 \<rparr>]"

definition ex_series :: "bucket list" where
  "ex_series =
     [\<lparr> month = ''2024-01'', revenue = 1000, expenses = 800, profit_simple = 200 \<rparr>,
      \<lparr> month = ''2024-02'', revenue = 1200, expenses = 900, profit_simple = 300 \<rparr>,
      \<lparr> month = ''2024-03'', revenue = 800, expenses = 700, profit_simple = 100 \<rparr>]"

definition ex_thirds :: "bucket list" where
  "ex_thirds =
     [\<lparr> month = ''2024-01'', revenue = 100, expenses = 0, profit_simple = 100 \<rparr>,
      \<lparr> month = ''2024-02'', revenue = 100, expenses = 0, profit_simple = 100 \<rparr>,
      \<lparr> month = ''2024-03'', revenue = 101, expenses = 0, profit_simple = 101 \<rparr>]"




subsection \<open>A library instance for the examples\<close>

text \<open>
  The examples need the library at a few strings. The instance below agrees with Python
  and pandas 2 on the strings that occur in them: dates in the four formats of
  \<^verbatim>\<open>_parse_date_any\<close> written with digits, plain decimal numerals, the spellings of nan
  and of the infinities, and strings that are none of these. Its \<^verbatim>\<open>to_datetime\<close> gives
  \<^verbatim>\<open>NaT\<close> for \<^verbatim>\<open>'nan'\<close> and for the empty string and rejects every other string, which
  is what pandas does with the strings that reach it in the examples; its \<^verbatim>\<open>repr_num\<close> is
  right for integral floats; \<^verbatim>\<open>astype(str)\<close> turns a missing value into its \<^verbatim>\<open>str\<close>.
\<close>

definition is_leap :: "nat \<Rightarrow> bool" where
  "is_leap y = (y mod 4 = 0 \<and> (y mod 100 \<noteq> 0 \<or> y mod 400 = 0))"

definition days_in_month :: "nat \<Rightarrow> nat \<Rightarrow> nat" where
  "days_in_month y m =
     (if m = 2 then (if is_leap y then 29 else 28)
      else if m \<in> set [4, 6, 9, 11] then 30 else 31)"

definition mk_date :: "string \<Rightarrow> string \<Rightarrow> string \<Rightarrow> date option" where
  "mk_date ys ms ds =
     (case (digits_to_nat ys, digits_to_nat ms, digits_to_nat ds) of
        (Some y, Some m, Some d) \<Rightarrow>
          if length ys = 4 \<and> length ms \<le> 2 \<and> length ds \<le> 2 \<and> 1 \<le> y
             \<and> 1 \<le> m \<and> m \<le> 12 \<and> 1 \<le> d \<and> d \<le> days_in_month y m
          then Some (Date y m d) else None
      | _ \<Rightarrow> None)"

definition ex_strptime :: "string \<Rightarrow> string \<Rightarrow> date option" where
  "ex_strptime s fmt =
     (if fmt = ''%Y-%m-%d'' then
        (case split_on (CHR ''-'') s of [y, m, d] \<Rightarrow> mk_date y m d | _ \<Rightarrow> None)
      else if fmt = ''%d/%m/%Y'' then
        (case split_on (CHR ''/'') s of [d, m, y] \<Rightarrow> mk_date y m d | _ \<Rightarrow> None)
      else if fmt = ''%d-%m-%Y'' then
        (case split_on (CHR ''-'') s of [d, m, y] \<Rightarrow> mk_date y m d | _ \<Rightarrow> None)
      else if fmt = ''%m/%d/%Y'' then
        (case split_on (CHR ''/'') s of [m, d, y] \<Rightarrow> mk_date y m d | _ \<Rightarrow> None)
      else None)"

text \<open>A plain decimal numeral: an optional sign, digits, and an optional point with
  digits; at least one digit.\<close>

definition dec_unsigned :: "string \<Rightarrow> real option" where
  "dec_unsigned s =
     (case split_on (CHR ''.'') s of
        [ip] \<Rightarrow> map_option real (digits_to_nat ip)
      | [ip, fp] \<Rightarrow>
          if list_all is_digit ip \<and> list_all is_digit fp \<and> (ip \<noteq> [] \<or> fp \<noteq> [])
          then Some (real (nat_of_digits ip) + real (nat_of_digits fp) / 10 ^ length fp)
          else None
      | _ \<Rightarrow> None)"

definition dec_float :: "string \<Rightarrow> real option" where
  "dec_float s =
     (case s of
        [] \<Rightarrow> None
      | c # cs \<Rightarrow>
          if c = CHR ''-'' then map_option uminus (dec_unsigned cs)
          else if c = CHR ''+'' then dec_unsigned cs
          else dec_unsigned (c # cs))"

definition ex_float :: "string \<Rightarrow> pyfloat option" where
  "ex_float s0 =
     (let s = lower (strip s0)
      in if s \<in> set [''nan'', ''+nan'', ''-nan''] then Some FNaN
         else if s \<in> set [''inf'', ''+inf'', ''infinity'', ''+infinity''] then Some PosInf
         else if s \<in> set [''-inf'', ''-infinity''] then Some NegInf
         else map_option Fin (dec_float s))"

definition ex_lib :: pylib where
  "ex_lib = \<lparr> strptime = ex_strptime,
              to_datetime = (\<lambda>s. if s = ''nan'' \<or> s = [] then Some NaT else None),
              py_float = ex_float,
              repr_num = (\<lambda>r. format_d 1 \<lfloor>r\<rfloor> @ ''.0''),
              repr_date = isoformat,
              na_str = (\<lambda>x. if x = DateCell NaT then Some ''NaT'' else Some ''nan''),
              missing_direction = None,
              to_numeric = (\<lambda>x. case x of Num f \<Rightarrow> f
                                | Str s \<Rightarrow> (case ex_float s of Some f \<Rightarrow> f | None \<Rightarrow> FNaN)
                                | DateCell d \<Rightarrow> FNaN) \<rparr>"

text \<open>Frames with the columns \<^verbatim>\<open>Date\<close>, \<^verbatim>\<open>Description\<close>, \<^verbatim>\<open>Amount\<close> and, in the
  last one, \<^verbatim>\<open>Category\<close>.\<close>

definition ex_row :: "cell \<Rightarrow> string \<Rightarrow> cell \<Rightarrow> string \<Rightarrow> cell" where
  "ex_row d n a = (\<lambda>c. Num FNaN)(''Date'' := d, ''Description'' := Str n, ''Amount'' := a)"

definition ex_frame :: dataframe where
  "ex_frame = \<lparr> columns = [''Date'', ''Description'', ''Amount''],
                rows = [ex_row (Str ''2024-01-05'') ''Sale'' (Str ''1,200.50''),
                        ex_row (Str ''2024-01-09'') ''Rent'' (Str ''-300''),
                        ex_row (Str ''2024-02-01'') ''Cheque'' (Num FNaN),
                        ex_row (Str ''2024-02-02'') ''Refund'' (Str ''pending''),
                        ex_row (Num FNaN) ''Fee'' (Str ''12'')] \<rparr>"

definition ex_batch :: "frame_row list" where
  "ex_batch =
     [\<lparr> row_date = Day (Date 2024 1 5), row_description = ''Sale'', row_category = ''revenue'',
        row_direction = ''credit'', row_amount = Fin (2401 / 2) \<rparr>,
      \<lparr> row_date = Day (Date 2024 1 9), row_description = ''Rent'', row_category = ''expense'',
        row_direction = ''debit'', row_amount = Fin 300 \<rparr>,
      \<lparr> row_date = Day (Date 2024 2 1), row_description = ''Cheque'', row_category = ''revenue'',
        row_direction = ''credit'', row_amount = Fin 0 \<rparr>,
      \<lparr> row_date = Day (Date 2024 2 2), row_description = ''Refund'', row_category = ''revenue'',
        row_direction = ''credit'', row_amount = Fin 0 \<rparr>,
      \<lparr> row_date = NaT, row_description = ''Fee'', row_category = ''revenue'',
        row_direction = ''credit'', row_amount = Fin 12 \<rparr>]"


definition ex_nan_amount :: dataframe where
  "ex_nan_amount = \<lparr> columns = [''Date'', ''Description'', ''Amount''],
                     rows = [ex_row (Str ''2024-01-05'') ''Sale'' (Str ''NAN'')] \<rparr>"

definition ex_blank_category :: dataframe where
  "ex_blank_category =
     \<lparr> columns = [''Date'', ''Amount'', ''Category''],
       rows = [(\<lambda>c. Num FNaN)(''Date'' := Str ''2024-01-05'', ''Amount'' := Str ''100'',
                                ''Category'' := Str '' ''),
               (\<lambda>c. Num FNaN)(''Date'' := Str ''2024-01-09'', ''Amount'' := Str ''250'')] \<rparr>"

definition ex_dr_line :: string where
  "ex_dr_line = ''2024-01-05 ATM WITHDRAWAL DR 500.00''"

definition ex_draft_line :: string where
  "ex_draft_line = ''2024-01-05 Bank Draft 500.00''"

text \<open>Two lines of an invoice, separated by a line feed.\<close>

definition ex_invoice :: string where
  "ex_invoice = ''Invoice 20240017'' @ [CHR 0x0A] @ ''Total: 1500.00''"

section \<open>Verified properties\<close>

subsection \<open>Health score\<close>

lemma score_points_mono:
  "(a \<longrightarrow> a') \<Longrightarrow> (b \<longrightarrow> b') \<Longrightarrow> (c \<longrightarrow> c') \<Longrightarrow> (d \<longrightarrow> d')
   \<Longrightarrow> score_points a b c d \<le> score_points a' b' c' d'"
  by (simp add: score_points_def)

lemma score_nonempty:
  "txns \<noteq> [] \<Longrightarrow>
   fst (score txns) = score_points (inflow txns - outflow txns > 0)
     (revenue_sum txns - expenses_sum txns > 0) (length txns \<ge> 20) (revenue_sum txns > 0)"
  by (simp add: score_def Let_def)

text \<open>
  Claim C5. For a non-empty batch the health score is the sum of four components, each
  chosen by one test: net cashflow positive (30, else 10), profit positive (30, else 10),
  at least 20 transactions (20, else 10), revenue positive (20, else 5). The score lies
  between 0 and 100, and it is monotone in the four tests: if every test that holds for
  the batch \<open>txns\<close> also holds for the batch \<open>txns'\<close>, the score of \<open>txns'\<close> is at least
  the score of \<open>txns\<close>; in particular turning one test from false to true with the other
  three unchanged never lowers the score.
\<close>

theorem score_monotone_in_predicates:
  assumes "txns \<noteq> []" and "txns' \<noteq> []"
    and "inflow txns - outflow txns > 0 \<longrightarrow> inflow txns' - outflow txns' > 0"
    and "revenue_sum txns - expenses_sum txns > 0 \<longrightarrow> revenue_sum txns' - expenses_sum txns' > 0"
    and "length txns \<ge> 20 \<longrightarrow> length txns' \<ge> 20"
    and "revenue_sum txns > 0 \<longrightarrow> revenue_sum txns' > 0"
  shows "fst (score txns) =
           (if inflow txns - outflow txns > 0 then 30 else 10)
         + (if revenue_sum txns - expenses_sum txns > 0 then 30 else 10)
         + (if length txns \<ge> 20 then 20 else 10)
         + (if revenue_sum txns > 0 then 20 else 5)
       \<and> 0 \<le> fst (score txns) \<and> fst (score txns) \<le> 100
       \<and> fst (score txns) \<le> fst (score txns')"
proof -
  have eq: "fst (score txns) = score_points (inflow txns - outflow txns > 0)
     (revenue_sum txns - expenses_sum txns > 0) (length txns \<ge> 20) (revenue_sum txns > 0)"
    using assms(1) by (rule score_nonempty)
  have eq': "fst (score txns') = score_points (inflow txns' - outflow txns' > 0)
     (revenue_sum txns' - expenses_sum txns' > 0) (length txns' \<ge> 20) (revenue_sum txns' > 0)"
    using assms(2) by (rule score_nonempty)
  have formula: "fst (score txns) =
           (if inflow txns - outflow txns > 0 then 30 else 10)
         + (if revenue_sum txns - expenses_sum txns > 0 then 30 else 10)
         + (if length txns \<ge> 20 then 20 else 10)
         + (if revenue_sum txns > 0 then 20 else 5)"
    unfolding eq by (simp add: score_points_def)
  have range: "0 \<le> fst (score txns) \<and> fst (score txns) \<le> 100"
    unfolding eq by (simp add: score_points_def)
  have mono: "fst (score txns) \<le> fst (score txns')"
    unfolding eq eq' using assms(3-6) by (rule score_points_mono)
  from formula range mono show ?thesis by blast
qed

lemma ex_debit_only_sums:
  "inflow ex_debit_only = 0" "outflow ex_debit_only = 100"
  "revenue_sum ex_debit_only = 0" "expenses_sum ex_debit_only = 100"
  by (simp_all add: ex_debit_only_def inflow_def outflow_def revenue_sum_def expenses_sum_def
      is_credit_def is_debit_def is_revenue_credit_def or_empty_def lower_def lower_char_def)

lemma ex_credit_only_sums:
  "inflow ex_credit_only = 100" "outflow ex_credit_only = 0"
  "revenue_sum ex_credit_only = 100" "expenses_sum ex_credit_only = 0"
  by (simp_all add: ex_credit_only_def inflow_def outflow_def revenue_sum_def expenses_sum_def
      is_credit_def is_debit_def is_revenue_credit_def or_empty_def lower_def lower_char_def)

theorem score_monotone_in_predicates_witness:
  "fst (score ex_debit_only) = 35 \<and> fst (score ex_credit_only) = 90
   \<and> fst (score ex_debit_only) \<le> fst (score ex_credit_only)"
proof -
  have ne: "ex_debit_only \<noteq> []" "ex_credit_only \<noteq> []"
    by (simp_all add: ex_debit_only_def ex_credit_only_def)
  have len: "length ex_debit_only = 1" "length ex_credit_only = 1"
    by (simp_all add: ex_debit_only_def ex_credit_only_def)
  have a: "fst (score ex_debit_only) = 35 \<and> fst (score ex_debit_only) \<le> fst (score ex_credit_only)"
    using score_monotone_in_predicates [of ex_debit_only ex_credit_only] ne
    by (simp add: ex_debit_only_sums ex_credit_only_sums len)
  have b: "fst (score ex_credit_only) = 90"
    using score_monotone_in_predicates [of ex_credit_only ex_credit_only] ne
    by (simp add: ex_credit_only_sums len)
  from a b show ?thesis by simp
qed

subsection \<open>Forecast\<close>

lemma digit_val_table:
  "list_all (\<lambda>k. digit_val (''0123456789'' ! k) = k) [0, 1, 2, 3, 4, 5, 6, 7, 8, 9]"
  by (simp add: digit_val_def)

lemma upt_10: "[0..<10] = [0, 1, 2, 3, 4, 5, 6, 7, 8, 9]"
  by code_simp

lemma digit_char_props: "digit_val (digit_char d) = d mod 10" "is_digit (digit_char d)"
proof -
  have "d mod 10 \<in> set [0..<10]" by simp
  then have "d mod 10 \<in> set [0, 1, 2, 3, 4, 5, 6, 7, 8, 9]" by (simp only: upt_10)
  with digit_val_table show "digit_val (digit_char d) = d mod 10"
    unfolding list_all_iff digit_char_def by blast
  show "is_digit (digit_char d)"
    unfolding is_digit_def digit_char_def by (rule nth_mem) simp
qed

lemma nat_of_digits_snoc: "nat_of_digits (ds @ [c]) = 10 * nat_of_digits ds + digit_val c"
  by (simp add: nat_of_digits_def)

lemma digits_of_all: "list_all is_digit (digits_of n) \<and> digits_of n \<noteq> []"
proof (induction n rule: digits_of.induct)
  case (1 n)
  show ?case
  proof (cases "n < 10")
    case True
    then show ?thesis by (simp add: digits_of.simps [of n] digit_char_props)
  next
    case False
    with 1 show ?thesis by (simp add: digits_of.simps [of n] digit_char_props)
  qed
qed

lemma nat_of_digits_of: "nat_of_digits (digits_of n) = n"
proof (induction n rule: digits_of.induct)
  case (1 n)
  show ?case
  proof (cases "n < 10")
    case True
    then show ?thesis
      by (simp add: digits_of.simps [of n] nat_of_digits_def digit_char_props)
  next
    case False
    with 1 have "nat_of_digits (digits_of (n div 10)) = n div 10" by simp
    with False show ?thesis
      by (simp add: digits_of.simps [of n] nat_of_digits_snoc digit_char_props)
  qed
qed

lemma nat_of_digits_zeros: "nat_of_digits (replicate k (CHR ''0'') @ ds) = nat_of_digits ds"
proof -
  have "foldl (\<lambda>acc c. 10 * acc + digit_val c) 0 (replicate k (CHR ''0'')) = 0"
    by (induction k) (simp_all add: digit_val_def)
  then show ?thesis by (simp add: nat_of_digits_def)
qed

lemma digit_not_special: "is_digit c \<Longrightarrow> \<not> is_space c \<and> c \<noteq> CHR ''-'' \<and> c \<noteq> CHR ''+''"
  by (auto simp add: is_digit_def is_space_def)

lemma dropWhile_none: "\<forall>c \<in> set s. \<not> P c \<Longrightarrow> dropWhile P s = s"
  by (cases s) auto

lemma strip_digits: "list_all is_digit s \<Longrightarrow> strip s = s"
  by (simp add: strip_def dropWhile_none digit_not_special list_all_iff)

lemma format_d_nat: "format_d w (int n) = zero_pad w (digits_of n)"
  by (simp add: format_d_def)

lemma is_digit_0: "is_digit (CHR ''0'')"
  by (simp add: is_digit_def)

lemma zero_pad_all: "list_all is_digit (zero_pad w (digits_of n)) \<and> zero_pad w (digits_of n) \<noteq> []"
  using digits_of_all [of n] by (auto simp add: zero_pad_def list_all_iff is_digit_0)

lemma py_int_format_d: "py_int (format_d w (int n)) = Some (int n)"
proof -
  let ?s = "zero_pad w (digits_of n)"
  have all: "list_all is_digit ?s" and ne: "?s \<noteq> []" using zero_pad_all by simp_all
  then obtain c cs where s: "?s = c # cs" by (cases ?s) auto
  with all have c: "is_digit c" by simp
  have val: "nat_of_digits ?s = n" by (simp add: zero_pad_def nat_of_digits_zeros nat_of_digits_of)
  have dn: "digits_to_nat ?s = Some n" using all ne val by (simp add: digits_to_nat_def)
  have st: "strip ?s = c # cs" using strip_digits [OF all] s by simp
  show ?thesis
    unfolding py_int_def format_d_nat st using digit_not_special [OF c] dn s by simp
qed

lemma split_on_none: "sep \<notin> set b \<Longrightarrow> split_on sep b = [b]"
  by (induction b) auto

lemma split_on_once: "sep \<notin> set a \<Longrightarrow> sep \<notin> set b \<Longrightarrow> split_on sep (a @ sep # b) = [a, b]"
  by (induction a) (auto simp add: split_on_none)

lemma format_d_no_dash: "CHR ''-'' \<notin> set (format_d w (int n))"
proof
  assume "CHR ''-'' \<in> set (format_d w (int n))"
  then have "is_digit (CHR ''-'')" using zero_pad_all [of w n] by (simp add: format_d_nat list_all_iff)
  then show False using digit_not_special by blast
qed

lemma add_months_ym_format:
  "add_months_ym (format_d 4 (int y) @ ''-'' @ format_d 2 (int m)) i =
     Inr (format_d 4 ((int y * 12 + (int m - 1) + i) div 12)
          @ ''-'' @ format_d 2 ((int y * 12 + (int m - 1) + i) mod 12 + 1))"
proof -
  have sp: "split_on (CHR ''-'') (format_d 4 (int y) @ ''-'' @ format_d 2 (int m))
      = [format_d 4 (int y), format_d 2 (int m)]"
    using split_on_once [OF format_d_no_dash format_d_no_dash, of 4 y 2 m] by simp
  show ?thesis
    unfolding add_months_ym_def sp by (simp add: py_int_format_d Let_def)
qed

lemma next_month_iter:
  assumes "1 \<le> m" and "m \<le> 12"
  shows "(spec_next_month ^^ k) (y, m) = ((y * 12 + (m - 1) + k) div 12, (y * 12 + (m - 1) + k) mod 12 + 1)"
proof (induction k)
  case 0
  from assms have lt: "m - 1 < 12" by simp
  have d: "(y * 12 + (m - 1)) div 12 = y" using lt by simp
  have r: "(y * 12 + (m - 1)) mod 12 = m - 1" using lt by simp
  have m1: "m - 1 + 1 = m" using assms by simp
  show ?case by (simp only: funpow.simps id_apply add_0_right d r m1)
next
  case (Suc k)
  define t where "t = y * 12 + (m - 1) + k"
  have "(spec_next_month ^^ Suc k) (y, m) = spec_next_month (t div 12, t mod 12 + 1)"
    using Suc by (simp add: t_def)
  also have "\<dots> = (Suc t div 12, Suc t mod 12 + 1)"
    by (auto simp add: spec_next_month_def mod_Suc div_Suc)
  finally show ?case by (simp add: t_def)
qed

lemma spec_month_key_eq:
  assumes "1 \<le> m" and "m \<le> 12"
  shows "spec_month_key y m k =
     format_d 4 ((int y * 12 + (int m - 1) + int k) div 12)
     @ ''-'' @ format_d 2 ((int y * 12 + (int m - 1) + int k) mod 12 + 1)"
proof -
  define t where "t = y * 12 + (m - 1) + k"
  have t: "int y * 12 + (int m - 1) + int k = int t" using assms by (simp add: t_def)
  have "spec_month_key y m k = format_d 4 (int (t div 12)) @ ''-'' @ format_d 2 (int (t mod 12 + 1))"
    by (simp add: spec_month_key_def next_month_iter [OF assms] strftime_ym_def t_def)
  also have "int (t div 12) = int t div 12" by (simp add: zdiv_int)
  also have "int (t mod 12 + 1) = int t mod 12 + 1" by (simp add: zmod_int)
  finally show ?thesis unfolding t .
qed

lemma collect_map_Inr: "collect (map (\<lambda>i. Inr (g i)) xs) = Inr (map g xs)"
  by (induction xs) simp_all

text \<open>
  Claim C8, as amended. For every non-empty monthly series whose last key is the month
  \<open>(y, m)\<close> and every horizon \<open>n \<ge> 1\<close>, the forecast has one row for each of the next \<open>n\<close>
  consecutive months after \<open>(y, m)\<close> (calendar arithmetic with year rollover), and every row
  carries the average revenue and the average profit of the trailing up-to-3 buckets,
  each rounded to two decimals; \<^verbatim>\<open>based_on_months\<close> lists the keys of those buckets.
  (The emitted figure is the rounded average, not the average itself; see the
  counterexample below.)
\<close>

theorem forecast_flat_average:
  assumes "monthly \<noteq> []" and "1 \<le> n"
    and "month (last monthly) = strftime_ym (Date y m d)" and "1 \<le> m" and "m \<le> 12"
  shows "forecast_from monthly n =
     Inr \<lparr> forecast =
             map (\<lambda>i. \<lparr> f_month = spec_month_key y m (nat i),
                        forecast_revenue =
                          round2 (sum_list (map revenue (drop (length monthly - 3) monthly))
                                  / real (length (drop (length monthly - 3) monthly))),
                        forecast_net_cashflow =
                          round2 (sum_list (map profit_simple (drop (length monthly - 3) monthly))
                                  / real (length (drop (length monthly - 3) monthly))) \<rparr>) [1..n],
           based_on_months = map month (drop (length monthly - 3) monthly),
           message = None \<rparr>"
proof -
  define last_n where "last_n = drop (length monthly - 3) monthly"
  define rev where "rev = round2 (sum_list (map revenue last_n) / real (length last_n))"
  define pro where "pro = round2 (sum_list (map profit_simple last_n) / real (length last_n))"
  define g where "g = (\<lambda>i. \<lparr> f_month = spec_month_key y m (nat i), forecast_revenue = rev,
                     forecast_net_cashflow = pro \<rparr>)"
  define f where "f = (\<lambda>i. case add_months_ym (month (last monthly)) i of
                    Inl e \<Rightarrow> Inl e
                  | Inr k \<Rightarrow> Inr \<lparr> f_month = k, forecast_revenue = rev,
                                   forecast_net_cashflow = pro \<rparr>)"
  have tr: "(if length monthly \<ge> 3 then drop (length monthly - 3) monthly else monthly) = last_n"
    by (simp add: last_n_def)
  have key: "f i = Inr (g i)" if "i \<in> set [1..n]" for i
  proof -
    from that have i: "0 \<le> i" by simp
    have "add_months_ym (month (last monthly)) i
        = add_months_ym (format_d 4 (int y) @ ''-'' @ format_d 2 (int m)) i"
      by (simp add: assms(3) strftime_ym_def)
    also have "\<dots> = Inr (format_d 4 ((int y * 12 + (int m - 1) + i) div 12)
          @ ''-'' @ format_d 2 ((int y * 12 + (int m - 1) + i) mod 12 + 1))"
      by (rule add_months_ym_format)
    also have "\<dots> = Inr (spec_month_key y m (nat i))"
      using i by (simp add: spec_month_key_eq [OF assms(4,5)])
    finally show ?thesis by (simp add: f_def g_def)
  qed
  have "map f [1..n] = map (\<lambda>i. Inr (g i)) [1..n]"
    using key by (intro map_cong refl) blast
  then have c: "collect (map f [1..n]) = Inr (map g [1..n])"
    by (simp only: collect_map_Inr)
  have "forecast_from monthly n =
      (case collect (map f [1..n]) of Inl e \<Rightarrow> Inl e
       | Inr out \<Rightarrow> Inr \<lparr> forecast = out, based_on_months = map month last_n, message = None \<rparr>)"
    using assms(1) unfolding forecast_from_def Let_def tr f_def rev_def pro_def by simp
  then show ?thesis
    unfolding c by (simp add: g_def rev_def pro_def last_n_def)
qed

lemmas num_simps = strftime_ym_def format_d_def zero_pad_def digit_char_def digits_of.simps
  add_months_ym_def py_int_def strip_def is_space_def digits_to_nat_def is_digit_def
  nat_of_digits_def digit_val_def

lemma ex_add_months:
  "add_months_ym ''2024-03'' 1 = Inr ''2024-04''"
  "add_months_ym ''2024-03'' 2 = Inr ''2024-05''"
  by (simp_all add: num_simps)

lemma ex_keys: "spec_month_key 2024 3 (Suc 0) = ''2024-04''" "spec_month_key 2024 3 2 = ''2024-05''"
  by (simp_all add: spec_month_key_def spec_next_month_def numeral_2_eq_2 num_simps)

lemma ex_last: "month (last ex_series) = strftime_ym (Date 2024 3 1)"
  by (simp add: ex_series_def num_simps)

lemma upto_1_2: "[1..2::int] = [1, 2]" "[1..1::int] = [1]"
  by (simp_all add: upto.simps)

lemma ex_round: "round2 1000 = 1000" "round2 200 = 200" "round2 (301 / 3) = 10033 / 100"
  by (simp_all add: round2_def round_half_even_def Let_def)

theorem forecast_flat_average_witness:
  "forecast_from ex_series 2 =
     Inr \<lparr> forecast = [\<lparr> f_month = ''2024-04'', forecast_revenue = 1000, forecast_net_cashflow = 200 \<rparr>,
                       \<lparr> f_month = ''2024-05'', forecast_revenue = 1000, forecast_net_cashflow = 200 \<rparr>],
           based_on_months = [''2024-01'', ''2024-02'', ''2024-03''], message = None \<rparr>"
proof -
  have ne: "ex_series \<noteq> []" by (simp add: ex_series_def)
  have len: "drop (length ex_series - 3) ex_series = ex_series" by (simp add: ex_series_def)
  have sums: "sum_list (map revenue ex_series) / real (length ex_series) = 1000"
    "sum_list (map profit_simple ex_series) / real (length ex_series) = 200"
    "map month ex_series = [''2024-01'', ''2024-02'', ''2024-03'']"
    by (simp_all add: ex_series_def)
  show ?thesis
    using forecast_flat_average [of ex_series 2 2024 3 1, OF ne _ ex_last]
    by (simp add: len sums upto_1_2 ex_keys ex_round)
qed

theorem forecast_rounding_counterexample:
  "forecast_from ex_thirds 1 =
     Inr \<lparr> forecast = [\<lparr> f_month = ''2024-04'', forecast_revenue = 10033 / 100,
                          forecast_net_cashflow = 10033 / 100 \<rparr>],
           based_on_months = [''2024-01'', ''2024-02'', ''2024-03''], message = None \<rparr>
   \<and> sum_list (map revenue ex_thirds) / real (length ex_thirds) = 301 / 3"
  by (simp add: forecast_from_def ex_thirds_def upto_1_2 ex_add_months ex_round)

subsection \<open>Monthly series and aggregate totals\<close>














subsubsection \<open>In exact arithmetic\<close>





















subsection \<open>Tabular ingestion\<close>

lemmas str_simps = strip_def is_space_def lower_def lower_char_def is_digit_def
  digits_to_nat_def nat_of_digits_def digit_val_def remove_commas_def

lemmas lib_simps = ex_lib_def cell_str_def float_str_def isna_def astype_str_def
  ex_strptime_def mk_date_def days_in_month_def is_leap_def ex_float_def dec_float_def
  dec_unsigned_def

lemma ex_detect:
  "detect [''Date'', ''Description'', ''Amount''] =
     \<lparr> c_date = Some ''Date'', c_desc = Some ''Description'', c_cat = None, c_dir = None,
       c_amt = Some ''Amount'' \<rparr>"
  by (simp add: detect_def main_cols_def date_names_def desc_names_def cat_names_def
      dir_names_def amt_names_def str_simps)

lemma ex_detect_category:
  "detect [''Date'', ''Amount'', ''Category''] =
     \<lparr> c_date = Some ''Date'', c_desc = None, c_cat = Some ''Category'', c_dir = None,
       c_amt = Some ''Amount'' \<rparr>"
  by (simp add: detect_def main_cols_def date_names_def desc_names_def cat_names_def
      dir_names_def amt_names_def str_simps)

lemma ex_dates:
  "parse_date_any ex_lib (Str ''2024-01-05'') = Inr (Day (Date 2024 1 5))"
  "parse_date_any ex_lib (Str ''2024-01-09'') = Inr (Day (Date 2024 1 9))"
  "parse_date_any ex_lib (Str ''2024-02-01'') = Inr (Day (Date 2024 2 1))"
  "parse_date_any ex_lib (Str ''2024-02-02'') = Inr (Day (Date 2024 2 2))"
  "parse_date_any ex_lib (Num FNaN) = Inr NaT"
  "parse_date_any ex_lib (Str ''not a date'') = Inl (Http 400 ''Invalid date: not a date'')"
  by (simp_all add: parse_date_any_def lib_simps str_simps)

lemma ex_floats:
  "safe_float ex_lib (Str ''1,200.50'') = Fin (2401 / 2)"
  "safe_float ex_lib (Str ''-300'') = Fin (- 300)"
  "safe_float ex_lib (Str ''100'') = Fin 100"
  "safe_float ex_lib (Str ''12'') = Fin 12"
  "safe_float ex_lib (Num FNaN) = Fin 0"
  "safe_float ex_lib (Str ''pending'') = Fin 0"
  "safe_float ex_lib (Str ''NAN'') = FNaN"
  by (simp_all add: safe_float_def lib_simps str_simps)

lemmas row_simps = build_row_def detected_direction_def detected_amount_def
  detected_description_def detected_category_def fill_category_def fabs_def ge0_def
  astype_str_def isna_def cell_str_def strip_def is_space_def lower_def lower_char_def

lemma ex_normalize: "normalize_transactions ex_lib ex_frame = Inr ex_batch"
  by (simp add: normalize_transactions_def ex_frame_def ex_detect ex_row_def ex_dates ex_floats
      row_simps ex_batch_def)


lemma apply_all_find:
  "apply_all xs = (case List.find isl xs of Some x \<Rightarrow> Inl (projl x) | None \<Rightarrow> Inr (map projr xs))"
proof (induction xs)
  case Nil
  show ?case by simp
next
  case (Cons x xs)
  show ?case
  proof (cases x)
    case (Inl e)
    then show ?thesis by simp
  next
    case (Inr y)
    with Cons show ?thesis by (simp split: option.splits)
  qed
qed

lemma find_map_comp: "List.find P (map f xs) = map_option f (List.find (\<lambda>x. P (f x)) xs)"
  by (induction xs) simp_all

lemma parse_date_any_error:
  "parse_date_any L v = Inl e \<Longrightarrow> e = Http 400 (''Invalid date: '' @ cell_str L v)"
  by (auto simp add: parse_date_any_def Let_def split: cell.splits option.splits)

lemma normalize_direction_cases:
  "normalize_direction v = ''credit'' \<or> normalize_direction v = ''debit''"
  by (simp add: normalize_direction_def Let_def)

lemma tidy_direction: "d = ''credit'' \<or> d = ''debit'' \<Longrightarrow> lower (strip d) = d"
  by (auto simp add: strip_def is_space_def lower_def lower_char_def)

lemma build_row_fields:
  "row_date (build_row L dt ca (r, d, dir)) = d"
  "row_direction (build_row L dt ca (r, d, dir)) = lower (strip dir)"
  "row_amount (build_row L dt ca (r, d, dir)) = fabs (safe_float L (r ca))"
  "row_category (build_row L dt ca (r, d, dir)) =
     take 64 (strip (fill_category (detected_category L dt r) dir))"
  by (simp_all add: build_row_def detected_amount_def)

lemma detect_Nil: "c_date (detect []) = None"
  by (simp add: detect_def main_cols_def date_names_def Let_def)

text \<open>The result of the normalization of a frame with a detected date and amount column.\<close>

lemma normalize_total:
  assumes cd: "c_date (detect (columns df)) = Some cd" and ca: "c_amt (detect (columns df)) = Some ca"
  shows "normalize_transactions L df =
     (case List.find (\<lambda>r. isl (parse_date_any L (r cd))) (rows df) of
        Some r \<Rightarrow> Inl (Http 400 (''Invalid date: '' @ cell_str L (r cd)))
      | None \<Rightarrow>
          (case List.find (\<lambda>r. isl (detected_direction L (detect (columns df)) ca r)) (rows df) of
             Some r \<Rightarrow> Inl (projl (detected_direction L (detect (columns df)) ca r))
           | None \<Rightarrow>
               Inr (map (build_row L (detect (columns df)) ca)
                     (zip (rows df)
                       (zip (map (\<lambda>r. projr (parse_date_any L (r cd))) (rows df))
                            (map (\<lambda>r. projr (detected_direction L (detect (columns df)) ca r))
                               (rows df)))))))"
proof (cases "rows df = []")
  case True
  then show ?thesis by (simp add: normalize_transactions_def)
next
  case False
  from cd have ne: "columns df \<noteq> []" using detect_Nil by auto
  show ?thesis
  proof (cases "List.find (\<lambda>r. isl (parse_date_any L (r cd))) (rows df)")
    case None
    then show ?thesis
      using False ne cd ca
      by (simp add: normalize_transactions_def Let_def apply_all_find find_map_comp comp_def
          split: option.splits)
  next
    case (Some r)
    then have "isl (parse_date_any L (r cd))" by (auto simp add: find_Some_iff)
    then obtain e where e: "parse_date_any L (r cd) = Inl e" by (cases "parse_date_any L (r cd)") auto
    from parse_date_any_error [OF e] e
    have "projl (parse_date_any L (r cd)) = Http 400 (''Invalid date: '' @ cell_str L (r cd))"
      by simp
    with Some show ?thesis
      using False ne cd ca
      by (simp add: normalize_transactions_def Let_def apply_all_find find_map_comp comp_def)
  qed
qed

lemma direction_present:
  assumes "\<And>c. c_dir dt = Some c \<Longrightarrow> \<not> isna (r c)"
  shows "\<not> isl (detected_direction L dt ca r)"
  using assms by (auto simp add: detected_direction_def direction_cell_def astype_str_def
      split: option.splits)

lemma signed_amount_policy:
  assumes "normalize_transactions L df = Inr out"
    and "c_dir (detect (columns df)) = None"
    and "c_amt (detect (columns df)) = Some ca"
    and "i < length out"
  shows "row_direction (out ! i) = (if ge0 (safe_float L ((rows df ! i) ca)) then ''credit'' else ''debit'')
     \<and> row_amount (out ! i) = fabs (safe_float L ((rows df ! i) ca))
     \<and> (safe_float L ((rows df ! i) ca) \<noteq> FNaN \<longrightarrow> ge0 (row_amount (out ! i)))"
proof -
  from assms(1,4) have ne: "\<not> (columns df = [] \<or> rows df = [])"
    by (auto simp add: normalize_transactions_def)
  with assms(1,3) obtain cd where cd: "c_date (detect (columns df)) = Some cd"
    by (auto simp add: normalize_transactions_def Let_def split: option.splits)
  let ?dt = "detect (columns df)"
  have nd: "\<not> isl (detected_direction L ?dt ca r)" for r
    by (rule direction_present) (simp add: assms(2))
  from assms(1) have out: "out = map (build_row L ?dt ca)
      (zip (rows df) (zip (map (\<lambda>r. projr (parse_date_any L (r cd))) (rows df))
         (map (\<lambda>r. projr (detected_direction L ?dt ca r)) (rows df))))"
    by (simp add: normalize_total [OF cd assms(3)] nd find_None_iff split: option.splits)
  with assms(4) have i: "i < length (rows df)" by simp
  then have "out ! i = build_row L ?dt ca (rows df ! i, projr (parse_date_any L ((rows df ! i) cd)),
      projr (detected_direction L ?dt ca (rows df ! i)))"
    by (simp add: out)
  then show ?thesis
    by (cases "safe_float L ((rows df ! i) ca)")
       (simp_all add: build_row_fields detected_direction_def assms(2) tidy_direction fabs_def ge0_def)
qed

lemma utils_amount_policy:
  "utils_amount_direction L x =
     (if ge0 (utils_signed L x) then ''credit'' else ''debit'', fabs (utils_signed L x))
   \<and> ge0 (snd (utils_amount_direction L x))"
  by (cases "to_numeric L x") (simp_all add: utils_amount_direction_def utils_signed_def Let_def fabs_def ge0_def)

text \<open>
  Claim C1. The sign policy holds for every amount that is a number, and the amount branch
  of \<^verbatim>\<open>utils.normalize_transactions\<close> never stores nan, because it fills nan with 0 (the
  two lemmas above). In \<^verbatim>\<open>main.normalize_transactions\<close> the text \<^verbatim>\<open>NAN\<close> in the amount
  column passes \<^verbatim>\<open>_safe_float\<close> as nan: the transaction is a debit whose amount is nan, which
  is not a number greater than or equal to zero, where the other path stores a credit of 0.
\<close>

theorem nan_amount_stored:
  "normalize_transactions ex_lib ex_nan_amount =
     Inr [\<lparr> row_date = Day (Date 2024 1 5), row_description = ''Sale'', row_category = ''expense'',
            row_direction = ''debit'', row_amount = FNaN \<rparr>]
   \<and> safe_float ex_lib (Str ''NAN'') = FNaN
   \<and> \<not> ge0 FNaN
   \<and> utils_amount_direction ex_lib (Str ''NAN'') = (''credit'', Fin 0)"
proof -
  have a: "normalize_transactions ex_lib ex_nan_amount =
     Inr [\<lparr> row_date = Day (Date 2024 1 5), row_description = ''Sale'', row_category = ''expense'',
            row_direction = ''debit'', row_amount = FNaN \<rparr>]"
    by (simp add: normalize_transactions_def ex_nan_amount_def ex_detect ex_row_def ex_dates
        ex_floats row_simps Let_def)
  have b: "utils_amount_direction ex_lib (Str ''NAN'') = (''credit'', Fin 0)"
    by (simp add: utils_amount_direction_def utils_signed_def lib_simps str_simps fabs_def
        ge0_def Let_def)
  from a b show ?thesis by (simp add: ex_floats ge0_def)
qed


lemma fill_empty_category:
  "dir = ''credit'' \<or> dir = ''debit'' \<Longrightarrow>
     take 64 (strip (fill_category [] dir)) = (if dir = ''credit'' then ''revenue'' else ''expense'')"
  by (auto simp add: fill_category_def strip_def is_space_def)

text \<open>
  Claim C3. A row whose detected category is the empty string gets \<^verbatim>\<open>revenue\<close> or
  \<^verbatim>\<open>expense\<close> from its direction (the lemma above). A row whose category cell is blank
  does not: the cell \<^verbatim>\<open>' '\<close> is not the empty string when the categories are filled, and
  the later \<^verbatim>\<open>strip\<close> makes it the empty string, so the row of the batch is a credit with
  an empty category, where the claim has \<^verbatim>\<open>revenue\<close>.
\<close>

theorem blank_category_unfilled:
  "normalize_transactions ex_lib ex_blank_category =
     Inr [\<lparr> row_date = Day (Date 2024 1 5), row_description = [], row_category = [],
            row_direction = ''credit'', row_amount = Fin 100 \<rparr>,
          \<lparr> row_date = Day (Date 2024 1 9), row_description = [], row_category = ''nan'',
            row_direction = ''credit'', row_amount = Fin 250 \<rparr>]"
proof -
  have f: "safe_float ex_lib (Str ''250'') = Fin 250"
    by (simp add: safe_float_def lib_simps str_simps)
  show ?thesis
    by (simp add: normalize_transactions_def ex_blank_category_def ex_detect_category ex_dates
        ex_floats f row_simps Let_def) (simp add: ex_lib_def lower_def lower_char_def is_space_def)
qed










subsection \<open>Field detection\<close>

lemma is_space_lower_char: "is_space (lower_char c) = is_space c"
  by (auto simp add: lower_char_def is_space_def split: option.splits if_splits)

lemma strip_map:
  assumes "\<And>c. is_space (f c) = is_space c"
  shows "strip (map f s) = map f (strip s)"
proof -
  have c: "is_space \<circ> f = is_space" using assms by (simp add: fun_eq_iff)
  have d: "dropWhile is_space (map f xs) = map f (dropWhile is_space xs)" for xs
    by (simp add: dropWhile_map c)
  show ?thesis by (simp add: strip_def d rev_map)
qed

lemma strip_lower: "strip (lower s) = lower (strip s)"
  unfolding lower_def by (rule strip_map) (rule is_space_lower_char)

lemma strip_strip: "strip (strip s) = strip s"
proof -
  define u where "u = dropWhile is_space s"
  have s: "strip s = rev (dropWhile is_space (rev u))" by (simp add: strip_def u_def)
  have front: "dropWhile is_space (strip s) = strip s"
  proof (cases "u = []")
    case True
    then show ?thesis by (simp add: s)
  next
    case False
    then have h: "\<not> is_space (hd u)" unfolding u_def by (rule hd_dropWhile)
    from False have "rev u = rev (tl u) @ [hd u]" by (cases u) simp_all
    then have "\<exists>w. dropWhile is_space (rev u) = w @ [hd u]"
      using h by (simp add: dropWhile_append)
    then obtain w where "dropWhile is_space (rev u) = w @ [hd u]" ..
    then have "strip s = hd u # rev w" by (simp add: s)
    with h show ?thesis by simp
  qed
  have "rev (strip s) = dropWhile is_space (rev u)" by (simp add: s)
  then have rear: "dropWhile is_space (rev (strip s)) = rev (strip s)" by simp
  have "strip (strip s) = rev (dropWhile is_space (rev (dropWhile is_space (strip s))))"
    by (simp add: strip_def)
  also have "\<dots> = strip s" by (simp add: front rear)
  finally show ?thesis .
qed

lemma norm_name_strip: "norm_name (strip c) = norm_name c"
  by (simp add: norm_name_def strip_strip)

lemma main_cols_utils_cols: "main_cols cs = utils_cols cs"
  by (simp add: main_cols_def utils_cols_def strip_lower)

lemma utils_cols_find:
  "distinct (map norm_name cs) \<Longrightarrow> utils_cols cs n = List.find (\<lambda>c. norm_name c = n) cs"
proof (induction cs)
  case Nil
  show ?case by (simp add: utils_cols_def)
next
  case (Cons x xs)
  then have ih: "utils_cols xs n = List.find (\<lambda>c. norm_name c = n) xs"
    and nx: "norm_name x \<notin> set (map norm_name xs)" by simp_all
  have "utils_cols (x # xs) n = (case utils_cols xs n of Some c \<Rightarrow> Some c
      | None \<Rightarrow> if norm_name x = n then Some x else None)"
    by (simp add: utils_cols_def map_add_def norm_name_def split: option.splits)
  also have "\<dots> = List.find (\<lambda>c. norm_name c = n) (x # xs)"
  proof (cases "norm_name x = n")
    case True
    have "\<forall>c \<in> set xs. norm_name c \<noteq> n"
    proof
      fix c
      assume "c \<in> set xs"
      then have "norm_name c \<in> set (map norm_name xs)" by simp
      with nx True show "norm_name c \<noteq> n" by auto
    qed
    then have "List.find (\<lambda>c. norm_name c = n) xs = None"
      by (simp add: find_None_iff)
    with True show ?thesis by (simp add: ih)
  next
    case False
    then show ?thesis by (simp add: ih split: option.splits)
  qed
  finally show ?case .
qed

lemma find_perm:
  assumes "distinct (map f cs)" and "mset cs' = mset cs"
  shows "List.find (\<lambda>c. f c = n) cs' = List.find (\<lambda>c. f c = n) cs"
proof -
  have d': "distinct (map f cs')"
    using assms mset_eq_imp_distinct_iff [of "map f cs'" "map f cs"] by simp
  have set_eq: "set cs' = set cs" using assms(2) by (rule mset_eq_setD)
  have uniq: "List.find (\<lambda>c. f c = n) xs = Some c \<longleftrightarrow> c \<in> set xs \<and> f c = n"
    if "distinct (map f xs)" for xs c
    using that
  proof (induction xs)
    case Nil
    show ?case by simp
  next
    case (Cons x xs)
    then show ?case by auto
  qed
  show ?thesis
  proof (cases "List.find (\<lambda>c. f c = n) cs")
    case None
    then have "List.find (\<lambda>c. f c = n) cs' = None"
      using set_eq by (simp add: find_None_iff)
    with None show ?thesis by simp
  next
    case (Some c)
    with uniq [OF assms(1), of c] have "c \<in> set cs \<and> f c = n" by blast
    then have "List.find (\<lambda>c. f c = n) cs' = Some c"
      using uniq [OF d', of c] set_eq by blast
    with Some show ?thesis by simp
  qed
qed

lemma utils_cols_perm:
  assumes "distinct (map norm_name cs)" and "mset cs' = mset cs"
  shows "utils_cols cs' = utils_cols cs"
proof
  fix n
  have d': "distinct (map norm_name cs')"
    using assms mset_eq_imp_distinct_iff [of "map norm_name cs'" "map norm_name cs"] by simp
  show "utils_cols cs' n = utils_cols cs n"
    by (simp add: utils_cols_find [OF assms(1)] utils_cols_find [OF d'] find_perm [OF assms])
qed

lemma find_col_cong: "utils_cols a = utils_cols b \<Longrightarrow> find_col a keys = find_col b keys"
  by (induction keys) (simp_all split: option.splits)

lemma find_col_spec:
  assumes "distinct (map norm_name cs)"
  shows "find_col cs keys = spec_find cs keys"
proof (induction keys)
  case Nil
  show ?case by (simp add: spec_find_def)
next
  case (Cons k ks)
  show ?case
  proof (cases "lower k \<in> set (map norm_name cs)")
    case True
    then have "List.find (\<lambda>c. norm_name c = lower k) cs \<noteq> None"
      by (auto simp add: find_None_iff)
    then obtain c where c: "List.find (\<lambda>c. norm_name c = lower k) cs = Some c" by auto
    with True show ?thesis
      by (simp add: utils_cols_find [OF assms] spec_find_def)
  next
    case False
    have "\<forall>c \<in> set cs. norm_name c \<noteq> lower k"
    proof
      fix c
      assume "c \<in> set cs"
      then have "norm_name c \<in> set (map norm_name cs)" by simp
      with False show "norm_name c \<noteq> lower k" by auto
    qed
    then have "List.find (\<lambda>c. norm_name c = lower k) cs = None"
      by (simp add: find_None_iff)
    with False Cons show ?thesis
      by (simp add: utils_cols_find [OF assms] spec_find_def)
  qed
qed

text \<open>
  Claim C6, as amended. For every sequence of column headers whose normalized names
  (stripped, in lower case) are pairwise different, and every permutation of it, field
  detection resolves each role to the same column: \<^verbatim>\<open>_find_col\<close> gives the same result for
  every list of aliases, hence for each of the six roles, and so does the detection of
  \<^verbatim>\<open>main.normalize_transactions\<close>. The result is the column whose normalized name is
  the first alias, in priority order, that is the normalized name of some column.
\<close>

theorem field_detection_order_independent:
  assumes "distinct (map norm_name cs)" and "mset cs' = mset cs"
  shows "find_col cs' keys = find_col cs keys
     \<and> find_col cs keys = spec_find cs keys
     \<and> utils_detect cs' = utils_detect cs
     \<and> detect cs' = detect cs"
proof -
  have u: "utils_cols cs' = utils_cols cs" by (rule utils_cols_perm [OF assms])
  have ds: "distinct (map norm_name (map strip cs))"
    using assms(1) by (simp add: comp_def norm_name_strip)
  have ms: "mset (map strip cs') = mset (map strip cs)" using assms(2) by simp
  have us: "utils_cols (map strip cs') = utils_cols (map strip cs)"
    by (rule utils_cols_perm [OF ds ms])
  have 1: "find_col cs' keys = find_col cs keys" by (rule find_col_cong [OF u])
  have 2: "find_col cs keys = spec_find cs keys" by (rule find_col_spec [OF assms(1)])
  have 3: "utils_detect cs' = utils_detect cs"
    by (simp add: utils_detect_def find_col_cong [OF us])
  have 4: "detect cs' = detect cs"
    by (simp add: detect_def main_cols_utils_cols u)
  from 1 2 3 4 show ?thesis by simp
qed

lemmas name_simps = norm_name_def strip_def is_space_def lower_def lower_char_def
  utils_cols_def COLUMN_ALIASES_def

theorem field_detection_order_independent_witness:
  "find_col [''Narration'', ''Date'', '' Amount ''] (COLUMN_ALIASES ''amount'') = Some '' Amount ''
   \<and> find_col [''Date'', '' Amount '', ''Narration''] (COLUMN_ALIASES ''amount'') = Some '' Amount ''
   \<and> spec_find [''Date'', '' Amount '', ''Narration''] (COLUMN_ALIASES ''amount'') = Some '' Amount ''"
proof -
  have d: "distinct (map norm_name [''Date'', '' Amount '', ''Narration''])"
    by (simp add: name_simps)
  have m: "mset [''Narration'', ''Date'', '' Amount ''] = mset [''Date'', '' Amount '', ''Narration'']"
    by simp
  have v: "find_col [''Date'', '' Amount '', ''Narration''] (COLUMN_ALIASES ''amount'') = Some '' Amount ''"
    by (simp add: name_simps)
  show ?thesis
    using field_detection_order_independent [OF d m, of "COLUMN_ALIASES ''amount''"] v by simp
qed

theorem field_detection_counterexample:
  "mset [''date'', ''Date''] = mset [''Date'', ''date'']
   \<and> find_col [''Date'', ''date''] (COLUMN_ALIASES ''date'') = Some ''date''
   \<and> find_col [''date'', ''Date''] (COLUMN_ALIASES ''date'') = Some ''Date''
   \<and> c_date (detect [''Date'', ''date'']) = Some ''date''
   \<and> c_date (detect [''date'', ''Date'']) = Some ''Date''"
  by (simp add: name_simps detect_def main_cols_def date_names_def Let_def)

subsection \<open>Direction of a statement line\<close>

lemma contains_append: "contains (pre @ sub @ post) sub"
proof (induction pre)
  case Nil
  have "contains s []" for s by (cases s) simp_all
  then show ?case by (cases sub) simp_all
next
  case (Cons a pre)
  then show ?case by simp
qed

lemma split_ws_acc_token:
  "t \<in> set (split_ws_acc cur s) \<Longrightarrow>
     (\<exists>post. rev cur @ s = t @ post) \<or> (\<exists>pre c post. rev cur @ s = pre @ c # t @ post \<and> is_space c)"
proof (induction s arbitrary: cur)
  case Nil
  then show ?case by (simp split: if_splits)
next
  case (Cons a s)
  show ?case
  proof (cases "is_space a")
    case False
    with Cons.prems have "t \<in> set (split_ws_acc (a # cur) s)" by simp
    from Cons.IH [OF this] show ?thesis by simp
  next
    case True
    show ?thesis
    proof (cases "t = rev cur \<and> cur \<noteq> []")
      case True
      then have "rev cur @ a # s = t @ (a # s)" by simp
      then show ?thesis by blast
    next
      case False
      with Cons.prems True have "t \<in> set (split_ws_acc [] s)" by (auto split: if_splits)
      from Cons.IH [OF this]
      consider post where "s = t @ post" | pre c post where "s = pre @ c # t @ post" "is_space c"
        by auto
      then show ?thesis
      proof cases
        case 1
        then have "rev cur @ a # s = rev cur @ a # t @ post" by simp
        with True show ?thesis by blast
      next
        case 2
        then have "rev cur @ a # s = (rev cur @ a # pre) @ c # t @ post" by simp
        with 2(2) show ?thesis by blast
      qed
    qed
  qed
qed

lemma upper_char_id: "c \<notin> set ''abcdefghijklmnopqrstuvwxyz'' \<Longrightarrow> upper_char c = c"
proof -
  assume "c \<notin> set ''abcdefghijklmnopqrstuvwxyz''"
  then have "map_of (zip ''abcdefghijklmnopqrstuvwxyz'' ''ABCDEFGHIJKLMNOPQRSTUVWXYZ'') c = None"
    by (intro map_of_zip_is_None [THEN iffD2]) simp_all
  then show ?thesis by (simp only: upper_char_def option.case)
qed

lemma upper_char_letter:
  "c \<in> set ''abcdefghijklmnopqrstuvwxyz'' \<Longrightarrow> upper_char c \<in> set ''ABCDEFGHIJKLMNOPQRSTUVWXYZ''"
proof -
  assume "c \<in> set ''abcdefghijklmnopqrstuvwxyz''"
  then obtain d where d: "map_of (zip ''abcdefghijklmnopqrstuvwxyz'' ''ABCDEFGHIJKLMNOPQRSTUVWXYZ'') c = Some d"
    using map_of_zip_is_Some [of "''abcdefghijklmnopqrstuvwxyz''" "''ABCDEFGHIJKLMNOPQRSTUVWXYZ''" c]
    by auto
  then have "(c, d) \<in> set (zip ''abcdefghijklmnopqrstuvwxyz'' ''ABCDEFGHIJKLMNOPQRSTUVWXYZ'')"
    by (rule map_of_SomeD)
  then have "d \<in> set ''ABCDEFGHIJKLMNOPQRSTUVWXYZ''" by (rule set_zip_rightD)
  with d show ?thesis by (simp only: upper_char_def option.case)
qed

lemma space_not_letter:
  "is_space c \<Longrightarrow> c \<notin> set ''abcdefghijklmnopqrstuvwxyz'' \<and> c \<notin> set ''ABCDEFGHIJKLMNOPQRSTUVWXYZ''"
  by (auto simp add: is_space_def)

lemma digit_not_letter: "is_digit c \<Longrightarrow> c \<notin> set ''abcdefghijklmnopqrstuvwxyz''"
  by (auto simp add: is_digit_def)

lemma upper_char_space: "is_space c \<Longrightarrow> upper_char c = c"
  using space_not_letter upper_char_id by blast

lemma upper_char_digit: "is_digit c \<Longrightarrow> upper_char c = c"
  using digit_not_letter upper_char_id by blast

lemma is_space_upper_char: "is_space (upper_char c) \<Longrightarrow> is_space c"
proof (cases "c \<in> set ''abcdefghijklmnopqrstuvwxyz''")
  case True
  assume "is_space (upper_char c)"
  with upper_char_letter [OF True] space_not_letter show ?thesis by blast
next
  case False
  assume "is_space (upper_char c)"
  with upper_char_id [OF False] show ?thesis by simp
qed

lemma date_re_digit: "date_re_search line \<Longrightarrow> \<exists>c cs. line = c # cs \<and> is_digit c"
  by (cases line) (auto simp add: date_re_search_def matches_shape_def)

lemma pdf_row_direction:
  "pdf_row L line = Some t \<Longrightarrow> date_re_search line \<and> row_direction t = pdf_direction line"
  by (auto simp add: pdf_row_def Let_def split: if_splits sum.splits option.splits)

lemma token_after_space:
  assumes tok: "''DR'' \<in> set (split_ws (upper line))"
    and dig: "date_re_search line"
    and sp: "\<forall>c \<in> set line. is_space c \<longrightarrow> c = CHR '' ''"
  shows "contains (upper line) '' DR''"
proof -
  from date_re_digit [OF dig] obtain d ds where line: "line = d # ds" and d: "is_digit d" by auto
  have hd_u: "upper line = d # upper ds" by (simp add: line upper_def upper_char_digit [OF d])
  from tok split_ws_acc_token [of "''DR''" "[]" "upper line"]
  consider post where "upper line = ''DR'' @ post"
    | pre c post where "upper line = pre @ c # ''DR'' @ post" "is_space c"
    by (auto simp add: split_ws_def)
  then show ?thesis
  proof cases
    case 1
    with hd_u have "d = CHR ''D''" by simp
    with d show ?thesis by (simp add: is_digit_def)
  next
    case 2
    then have "c \<in> set (upper line)" by simp
    then obtain c' where c': "c' \<in> set line" "c = upper_char c'" by (auto simp add: upper_def)
    with 2(2) have s': "is_space c'" using is_space_upper_char by blast
    with sp c' have "c' = CHR '' ''" by simp
    moreover from s' have "upper_char c' = c'" by (rule upper_char_space)
    ultimately have "c = CHR '' ''" using c' by simp
    with 2(1) have "upper line = pre @ '' DR'' @ post" by simp
    then show ?thesis by (simp only: contains_append)
  qed
qed

text \<open>
  Claim C7, as amended. For every line accepted as a transaction candidate, the direction
  is \<^verbatim>\<open>debit\<close> if and only if the line in upper case contains \<^verbatim>\<open>DR\<close> right after a space
  (whether or not a token ends after it) or contains \<^verbatim>\<open>DEBIT\<close>; otherwise it is
  \<^verbatim>\<open>credit\<close>. In particular, when the only whitespace in the line is the space character,
  a line that has \<^verbatim>\<open>DR\<close> as a separate token or contains \<^verbatim>\<open>DEBIT\<close>, without regard to
  case, is a debit.
\<close>

theorem pdf_direction_rule:
  assumes "pdf_row L line = Some t"
  shows "row_direction t =
       (if contains (upper line) '' DR'' \<or> contains (upper line) ''DEBIT'' then ''debit'' else ''credit'')
     \<and> ((\<forall>c \<in> set line. is_space c \<longrightarrow> c = CHR '' '') \<longrightarrow> spec_debit line \<longrightarrow> row_direction t = ''debit'')"
proof -
  from pdf_row_direction [OF assms]
  have dig: "date_re_search line" and dir: "row_direction t = pdf_direction line" by simp_all
  have 1: "row_direction t =
      (if contains (upper line) '' DR'' \<or> contains (upper line) ''DEBIT'' then ''debit'' else ''credit'')"
    by (simp add: dir pdf_direction_def Let_def)
  have 2: "row_direction t = ''debit''"
    if sp: "\<forall>c \<in> set line. is_space c \<longrightarrow> c = CHR '' ''" and sd: "spec_debit line"
  proof -
    from sd have "contains (upper line) '' DR'' \<or> contains (upper line) ''DEBIT''"
      unfolding spec_debit_def using token_after_space [OF _ dig sp] by blast
    with 1 show ?thesis by simp
  qed
  from 1 2 show ?thesis by blast
qed

lemmas pdf_simps = pdf_row_def date_re_search_def matches_shape_def is_digit_def split_ws_def
  is_space_def parse_date_any_def cell_str_def ex_lib_def ex_strptime_def mk_date_def
  days_in_month_def is_leap_def strip_def digits_to_nat_def nat_of_digits_def digit_val_def
  num_at_def num_rest_def remove_commas_def ex_float_def dec_float_def dec_unsigned_def
  pdf_direction_def upper_def upper_char_def lower_def lower_char_def fabs_def Let_def

lemma ex_dr_row:
  "pdf_row ex_lib ex_dr_line =
     Some \<lparr> row_date = Day (Date 2024 1 5), row_description = ''ATM WITHDRAWAL DR 500.00'',
            row_category = ''expense'', row_direction = ''debit'', row_amount = Fin 500 \<rparr>"
  by (simp add: ex_dr_line_def pdf_simps)

theorem pdf_direction_rule_witness:
  "pdf_row ex_lib ex_dr_line =
     Some \<lparr> row_date = Day (Date 2024 1 5), row_description = ''ATM WITHDRAWAL DR 500.00'',
            row_category = ''expense'', row_direction = ''debit'', row_amount = Fin 500 \<rparr>
   \<and> list_all (\<lambda>c. c = CHR '' '' \<or> \<not> is_space c) ex_dr_line
   \<and> spec_debit ex_dr_line
   \<and> contains (upper ex_dr_line) '' DR''"
proof -
  have sp: "\<forall>c \<in> set ex_dr_line. is_space c \<longrightarrow> c = CHR '' ''"
    by (simp add: ex_dr_line_def is_space_def)
  have sd: "spec_debit ex_dr_line"
    by (simp add: ex_dr_line_def spec_debit_def split_ws_def is_space_def upper_def upper_char_def)
  have c: "contains (upper ex_dr_line) '' DR''"
    using pdf_direction_rule [OF ex_dr_row] by (simp split: if_splits)
       (simp add: ex_dr_line_def upper_def upper_char_def)
  from sp have "list_all (\<lambda>c. c = CHR '' '' \<or> \<not> is_space c) ex_dr_line"
    by (auto simp add: list_all_iff)
  with ex_dr_row sd c show ?thesis by simp
qed

theorem pdf_draft_counterexample:
  "pdf_row ex_lib ex_draft_line =
     Some \<lparr> row_date = Day (Date 2024 1 5), row_description = ''Bank Draft 500.00'',
            row_category = ''expense'', row_direction = ''debit'', row_amount = Fin 500 \<rparr>
   \<and> split_ws (upper ex_draft_line) = [''2024-01-05'', ''BANK'', ''DRAFT'', ''500.00'']
   \<and> \<not> contains (upper ex_draft_line) ''DEBIT''
   \<and> \<not> spec_debit ex_draft_line"
  by (simp add: ex_draft_line_def spec_debit_def pdf_simps)

end
